theory Spec2Isabelle
  imports Main
begin

section \<open>Values and descriptors\<close>

text \<open>
  The repository holds two versions of the query builder: \<^verbatim>\<open>src/lib/Database.ts\<close>, whose
  chain steps mutate the receiver and return it, and \<^verbatim>\<open>unnamed/part_002\<close>, whose chain
  steps work on a clone of the receiver. Definitions ending in \<open>_m\<close> embed the first,
  definitions ending in \<open>_c\<close> the second; definitions without suffix embed text that is the
  same in both (the constructor, the method bodies, \<^verbatim>\<open>getResponse\<close>, the trigger class).

  JavaScript values are the JSON values plus \<^verbatim>\<open>undefined\<close>; numbers are integers here
  (floating point is not modelled). An object is an association list, read with
  \<^const>\<open>map_of\<close>.
\<close>

datatype val =
    VUndef
  | VNull
  | VBool bool
  | VNum int
  | VStr string
  | VArr "val list"
  | VObj "(string \<times> val) list"

type_synonym row = "(string \<times> val) list"

text \<open>
  The \<^verbatim>\<open>database\<close> and \<^verbatim>\<open>table\<close> fields of a descriptor are strings in every
  builder made by \<^verbatim>\<open>Database.table\<close>. The sub-builder of \<^verbatim>\<open>whereGroup\<close> in
  \<^verbatim>\<open>src/lib/Database.ts\<close> is constructed with its arguments one position to the left,
  so that these fields can also hold the engine object or \<^verbatim>\<open>null\<close>.
\<close>

datatype ident = Name string | EngineObject | NullRef

text \<open>The \<^verbatim>\<open>engine\<close> field of a builder: the engine of the database, or \<^verbatim>\<open>null\<close>.\<close>

datatype engine_ref = EngineHandle | NoEngine

datatype connective = AND | OR

datatype dml_type = Select | Insert | Update | Delete

text \<open>The aggregate kinds \<^verbatim>\<open>COUNT\<close>, \<^verbatim>\<open>SUM\<close>, \<^verbatim>\<open>AVG\<close>, \<^verbatim>\<open>MAX\<close>, \<^verbatim>\<open>MIN\<close>.\<close>

datatype agg_type = AggCount | AggSum | AggAvg | AggMax | AggMin

datatype join_type = INNER | LEFT | RIGHT

datatype direction = ASC | DESC

text \<open>
  A WHERE node: the source's field \<^verbatim>\<open>type\<close> is the connective; \<^verbatim>\<open>isGroup\<close> is the
  constructor. A leaf written without a value has \<^const>\<open>VUndef\<close> there.
\<close>

datatype where_node =
    Leaf (wcolumn: string) (woperator: string) (wvalue: val) (wtype: connective)
  | Group (wtype: connective) (conditions: "where_node list")

record join =
  jtype :: join_type
  jtable :: string
  column1 :: string
  joperator :: string
  column2 :: string

record aggregation =
  atype :: agg_type
  acolumn :: string
  aalias :: string

record dml =
  dtype :: dml_type
  database :: ident
  table :: ident
  columns :: "string list"
  distinct_flag :: bool
  joins :: "join list"
  dwhere :: "where_node list"
  orderBy :: "(string \<times> direction) list"
  groupBy :: "string list"
  limit :: "int option"
  offset :: "int option"
  data :: val
  aggregation :: "aggregation option"

record computed_field =
  ccolumn :: string
  instruction :: string

record trigger =
  ttype :: string
  database_ref :: string
  table_ref :: string

text \<open>
  A \<^verbatim>\<open>Table\<close> object. Its field \<^verbatim>\<open>trigger\<close>, a \<^verbatim>\<open>Trigger\<close> over the same list as
  \<^verbatim>\<open>triggers\<close>, is not stored. What the engine does is a parameter of the terminal
  operations below; the field \<^verbatim>\<open>engine\<close> says whether the object holds it.
\<close>

record table_obj =
  engine :: engine_ref
  nextType :: connective
  dml :: dml
  computedFields :: "computed_field list"
  triggers :: "trigger list"

record database_obj =
  name :: string
  db_computedFields :: "computed_field list"
  db_triggers :: "trigger list"

section \<open>The object store and the trace of effects\<close>

text \<open>
  Everything a terminal operation does outside the builder is an event of the trace:
  a request handed to the engine (the descriptor given to \<^verbatim>\<open>JSON.stringify\<close>), a run of a
  trigger handler on a row, the \<^verbatim>\<open>commit\<close> or \<^verbatim>\<open>discard\<close> of the interceptor it
  returned, and a message printed by \<^verbatim>\<open>returnFormattedError\<close>.
\<close>

datatype event =
    EngineRun dml
  | HookRun string val
  | Commit string
  | Discard string
  | ConsoleError int string

type_synonym ref = nat

record world =
  objs :: "ref \<Rightarrow> table_obj"
  nextRef :: ref
  trace :: "event list"

definition alloc :: "table_obj \<Rightarrow> world \<Rightarrow> ref \<times> world" where
  "alloc t w = (nextRef w, w\<lparr>objs := (objs w)(nextRef w := t), nextRef := Suc (nextRef w)\<rparr>)"

definition modify :: "ref \<Rightarrow> (table_obj \<Rightarrow> table_obj) \<Rightarrow> world \<Rightarrow> world" where
  "modify r f w = w\<lparr>objs := (objs w)(r := f (objs w r))\<rparr>"

text \<open>
  The constructor of \<^verbatim>\<open>Table\<close>, with its parameters in the source's order; the first
  one, \<^verbatim>\<open>instance\<close>, only goes into the \<^verbatim>\<open>Trigger\<close> object and is left out. The
  parameters \<^verbatim>\<open>engine\<close>, \<^verbatim>\<open>computedFields\<close> and \<^verbatim>\<open>triggers\<close> default to
  \<^verbatim>\<open>null\<close>, \<^verbatim>\<open>[]\<close> and \<^verbatim>\<open>[]\<close>.
\<close>

definition new_Table ::
  "ident \<Rightarrow> ident \<Rightarrow> engine_ref \<Rightarrow> computed_field list \<Rightarrow> trigger list \<Rightarrow> table_obj" where
  "new_Table databaseName tableName eng cfs trs =
     \<lparr>engine = eng, nextType = AND,
      dml = \<lparr>dtype = Select, database = databaseName, table = tableName, columns = [''*''],
             distinct_flag = False, joins = [], dwhere = [], orderBy = [], groupBy = [],
             limit = None, offset = None, data = VNull, aggregation = None\<rparr>,
      computedFields = cfs, triggers = trs\<rparr>"

text \<open>\<^verbatim>\<open>Database.table\<close>: a new builder for a table of the database.\<close>

definition table_of :: "database_obj \<Rightarrow> string \<Rightarrow> world \<Rightarrow> ref \<times> world" where
  "table_of db tableName w =
     alloc (new_Table (Name (name db)) (Name tableName) EngineHandle
              (db_computedFields db) (db_triggers db)) w"

text \<open>
  \<^verbatim>\<open>Table.clone\<close> of \<^verbatim>\<open>part_002\<close>: a new object with the same field values; the
  descriptor and its five arrays are copied, so that nothing written to the clone
  reaches the original.
\<close>

definition clone :: "ref \<Rightarrow> world \<Rightarrow> ref \<times> world" where
  "clone r w = alloc (objs w r) w"

text \<open>
  A chain step of \<^verbatim>\<open>src/lib/Database.ts\<close> writes to \<^verbatim>\<open>this\<close> and returns it; a chain
  step of \<^verbatim>\<open>part_002\<close> writes to a clone and returns the clone.
\<close>

definition in_place :: "(table_obj \<Rightarrow> table_obj) \<Rightarrow> ref \<Rightarrow> world \<Rightarrow> ref \<times> world" where
  "in_place f r w = (r, modify r f w)"

definition on_clone :: "(table_obj \<Rightarrow> table_obj) \<Rightarrow> ref \<Rightarrow> world \<Rightarrow> ref \<times> world" where
  "on_clone f r w = (case clone r w of (c, w1) \<Rightarrow> (c, modify c f w1))"

section \<open>The condition tree builder\<close>

definition push_where :: "where_node \<Rightarrow> table_obj \<Rightarrow> table_obj" where
  "push_where n t = t\<lparr>dml := (dml t)\<lparr>dwhere := dwhere (dml t) @ [n]\<rparr>\<rparr>"

definition where_body :: "string \<Rightarrow> string \<Rightarrow> val \<Rightarrow> table_obj \<Rightarrow> table_obj" where
  "where_body col op v t = (push_where (Leaf col op v (nextType t)) t)\<lparr>nextType := AND\<rparr>"

definition orWhere_body :: "string \<Rightarrow> string \<Rightarrow> val \<Rightarrow> table_obj \<Rightarrow> table_obj" where
  "orWhere_body col op v t = push_where (Leaf col op v OR) t"

definition whereBetween_body :: "string \<Rightarrow> val \<times> val \<Rightarrow> table_obj \<Rightarrow> table_obj" where
  "whereBetween_body col values t =
     (case values of (value1, value2) \<Rightarrow>
        if value1 \<noteq> VUndef \<and> value2 \<noteq> VUndef
        then (push_where (Leaf col ''BETWEEN'' (VArr [value1, value2]) (nextType t)) t)
               \<lparr>nextType := AND\<rparr>
        else t)"

text \<open>\<^verbatim>\<open>Array.isArray(values) && values.length > 0\<close>\<close>

fun nonempty_array :: "val \<Rightarrow> bool" where
  "nonempty_array (VArr xs) = (xs \<noteq> [])"
| "nonempty_array _ = False"

definition whereIn_body :: "string \<Rightarrow> val \<Rightarrow> table_obj \<Rightarrow> table_obj" where
  "whereIn_body col values t =
     (if nonempty_array values
      then (push_where (Leaf col ''IN'' values (nextType t)) t)\<lparr>nextType := AND\<rparr>
      else t)"

definition whereNull_body :: "string \<Rightarrow> table_obj \<Rightarrow> table_obj" where
  "whereNull_body col t =
     (push_where (Leaf col ''IS NULL'' VUndef (nextType t)) t)\<lparr>nextType := AND\<rparr>"

definition whereNotNull_body :: "string \<Rightarrow> table_obj \<Rightarrow> table_obj" where
  "whereNotNull_body col t =
     (push_where (Leaf col ''IS NOT NULL'' VUndef (nextType t)) t)\<lparr>nextType := AND\<rparr>"

definition or_body :: "table_obj \<Rightarrow> table_obj" where
  "or_body t = t\<lparr>nextType := OR\<rparr>"

definition and_body :: "table_obj \<Rightarrow> table_obj" where
  "and_body t = t\<lparr>nextType := AND\<rparr>"

definition select_body :: "string list \<Rightarrow> table_obj \<Rightarrow> table_obj" where
  "select_body flds t =
     t\<lparr>dml := (dml t)\<lparr>dtype := Select,
                       columns := (if length flds > 0 then flds else [''*''])\<rparr>\<rparr>"

definition limit_body :: "int \<Rightarrow> table_obj \<Rightarrow> table_obj" where
  "limit_body n t = t\<lparr>dml := (dml t)\<lparr>limit := Some n\<rparr>\<rparr>"

subsection \<open>\<^verbatim>\<open>src/lib/Database.ts\<close>: chain steps on the receiver\<close>

definition where_m :: "string \<Rightarrow> string \<Rightarrow> val \<Rightarrow> ref \<Rightarrow> world \<Rightarrow> ref \<times> world" where
  "where_m col op v = in_place (where_body col op v)"

definition orWhere_m :: "string \<Rightarrow> string \<Rightarrow> val \<Rightarrow> ref \<Rightarrow> world \<Rightarrow> ref \<times> world" where
  "orWhere_m col op v = in_place (orWhere_body col op v)"

definition whereBetween_m :: "string \<Rightarrow> val \<times> val \<Rightarrow> ref \<Rightarrow> world \<Rightarrow> ref \<times> world" where
  "whereBetween_m col values = in_place (whereBetween_body col values)"

definition whereIn_m :: "string \<Rightarrow> val \<Rightarrow> ref \<Rightarrow> world \<Rightarrow> ref \<times> world" where
  "whereIn_m col values = in_place (whereIn_body col values)"

definition whereNull_m :: "string \<Rightarrow> ref \<Rightarrow> world \<Rightarrow> ref \<times> world" where
  "whereNull_m col = in_place (whereNull_body col)"

definition whereNotNull_m :: "string \<Rightarrow> ref \<Rightarrow> world \<Rightarrow> ref \<times> world" where
  "whereNotNull_m col = in_place (whereNotNull_body col)"

definition or_m :: "ref \<Rightarrow> world \<Rightarrow> ref \<times> world" where
  "or_m = in_place or_body"

definition and_m :: "ref \<Rightarrow> world \<Rightarrow> ref \<times> world" where
  "and_m = in_place and_body"

definition select_m :: "string list \<Rightarrow> ref \<Rightarrow> world \<Rightarrow> ref \<times> world" where
  "select_m flds = in_place (select_body flds)"

definition limit_m :: "int \<Rightarrow> ref \<Rightarrow> world \<Rightarrow> ref \<times> world" where
  "limit_m n = in_place (limit_body n)"

text \<open>
  \<^verbatim>\<open>whereGroup\<close>: the callback is a procedure on the store that is handed the
  sub-builder. Here the sub-builder is \<^verbatim>\<open>new Table(this.dml.database, this.dml.table,
  this.engine)\<close>: the database lands in \<^verbatim>\<open>instance\<close>, the table in
  \<^verbatim>\<open>databaseName\<close>, the engine in \<^verbatim>\<open>tableName\<close>, and the sub-builder's own
  \<^verbatim>\<open>engine\<close> is \<^verbatim>\<open>null\<close>.
\<close>

definition engine_as_ident :: "engine_ref \<Rightarrow> ident" where
  "engine_as_ident e = (case e of EngineHandle \<Rightarrow> EngineObject | NoEngine \<Rightarrow> NullRef)"

definition whereGroup_m :: "(ref \<Rightarrow> world \<Rightarrow> world) \<Rightarrow> ref \<Rightarrow> world \<Rightarrow> ref \<times> world" where
  "whereGroup_m callback r w =
     (case alloc (new_Table (table (dml (objs w r))) (engine_as_ident (engine (objs w r)))
                    NoEngine [] []) w of
        (groupQuery, w1) \<Rightarrow>
          (let w2 = callback groupQuery w1
           in (r, modify r (\<lambda>t. (push_where (Group (nextType t)
                                     (dwhere (dml (objs w2 groupQuery)))) t)
                                  \<lparr>nextType := AND\<rparr>) w2)))"

subsection \<open>\<^verbatim>\<open>part_002\<close>: chain steps on a clone\<close>

definition where_c :: "string \<Rightarrow> string \<Rightarrow> val \<Rightarrow> ref \<Rightarrow> world \<Rightarrow> ref \<times> world" where
  "where_c col op v = on_clone (where_body col op v)"

definition orWhere_c :: "string \<Rightarrow> string \<Rightarrow> val \<Rightarrow> ref \<Rightarrow> world \<Rightarrow> ref \<times> world" where
  "orWhere_c col op v = on_clone (orWhere_body col op v)"

definition whereBetween_c :: "string \<Rightarrow> val \<times> val \<Rightarrow> ref \<Rightarrow> world \<Rightarrow> ref \<times> world" where
  "whereBetween_c col values = on_clone (whereBetween_body col values)"

definition whereIn_c :: "string \<Rightarrow> val \<Rightarrow> ref \<Rightarrow> world \<Rightarrow> ref \<times> world" where
  "whereIn_c col values = on_clone (whereIn_body col values)"

definition whereNull_c :: "string \<Rightarrow> ref \<Rightarrow> world \<Rightarrow> ref \<times> world" where
  "whereNull_c col = on_clone (whereNull_body col)"

definition whereNotNull_c :: "string \<Rightarrow> ref \<Rightarrow> world \<Rightarrow> ref \<times> world" where
  "whereNotNull_c col = on_clone (whereNotNull_body col)"

definition or_c :: "ref \<Rightarrow> world \<Rightarrow> ref \<times> world" where
  "or_c = on_clone or_body"

definition and_c :: "ref \<Rightarrow> world \<Rightarrow> ref \<times> world" where
  "and_c = on_clone and_body"

definition select_c :: "string list \<Rightarrow> ref \<Rightarrow> world \<Rightarrow> ref \<times> world" where
  "select_c flds = on_clone (select_body flds)"

definition limit_c :: "int \<Rightarrow> ref \<Rightarrow> world \<Rightarrow> ref \<times> world" where
  "limit_c n = on_clone (limit_body n)"

text \<open>
  Here the sub-builder is \<^verbatim>\<open>new Table(this, clone.dml.database, clone.dml.table,
  clone.engine)\<close>, and the group node goes to the clone. The group's conditions are read
  from the sub-builder object itself once the callback has returned.
\<close>

definition whereGroup_c :: "(ref \<Rightarrow> world \<Rightarrow> world) \<Rightarrow> ref \<Rightarrow> world \<Rightarrow> ref \<times> world" where
  "whereGroup_c callback r w =
     (case clone r w of
        (c, w1) \<Rightarrow>
          (case alloc (new_Table (database (dml (objs w1 c))) (table (dml (objs w1 c)))
                         (engine (objs w1 c)) [] []) w1 of
             (groupQuery, w2) \<Rightarrow>
               (let w3 = callback groupQuery w2
                in (c, modify c (\<lambda>t. (push_where (Group (nextType t)
                                          (dwhere (dml (objs w3 groupQuery)))) t)
                                       \<lparr>nextType := AND\<rparr>) w3))))"

section \<open>Collaborators\<close>

text \<open>
  The engine answers \<^verbatim>\<open>{status, data?, message?}\<close>; a missing \<^verbatim>\<open>data\<close> or
  \<^verbatim>\<open>message\<close> is \<^const>\<open>None\<close>. What the engine answers may depend on everything that
  happened before, so it is a function of the trace and the request.
\<close>

record response =
  status :: int
  rdata :: "row list option"
  message :: "string option"

text \<open>
  The collaborators of \<^verbatim>\<open>@dbcube/core\<close> and the trigger handler modules are not part of
  the repository; they are parameters: the engine, \<^verbatim>\<open>extractDependencies\<close>, the value a
  computed field takes on a row, and whether the handler of a trigger returns on a row
  (\<^const>\<open>True\<close>) or throws.
\<close>

record env =
  engine_run :: "event list \<Rightarrow> dml \<Rightarrow> response"
  extractDependencies :: "string \<Rightarrow> string list"
  compute :: "computed_field \<Rightarrow> row \<Rightarrow> val"
  handler_ok :: "trigger \<Rightarrow> val \<Rightarrow> bool"

text \<open>
  \<^verbatim>\<open>Error msg\<close> is a \<^verbatim>\<open>throw new Error(msg)\<close> of the source, \<^verbatim>\<open>TypeError\<close> the
  exception JavaScript raises on a property read of \<^verbatim>\<open>undefined\<close> or \<^verbatim>\<open>null\<close>,
  \<^verbatim>\<open>TriggerHandlerError\<close> an exception out of a handler module. \<^verbatim>\<open>Unmodelled\<close> marks
  the one place where the model stops: the numeric coercion of a string or an array.
\<close>

datatype error = Error string | TypeError | TriggerHandlerError | Unmodelled

definition found :: "'a option \<Rightarrow> bool" where
  "found x = (case x of None \<Rightarrow> False | Some _ \<Rightarrow> True)"

text \<open>
  \<^verbatim>\<open>returnFormattedError\<close> builds a coloured text and prints it with
  \<^verbatim>\<open>console.error\<close>; it has no \<^verbatim>\<open>throw\<close>. Its first use of the message is
  \<^verbatim>\<open>message.includes\<close>, which raises when the message is missing.
\<close>

definition returnFormattedError ::
  "int \<Rightarrow> string option \<Rightarrow> event list \<Rightarrow> (error + unit) \<times> event list" where
  "returnFormattedError st msg tr =
     (case msg of
        None \<Rightarrow> (Inl TypeError, tr)
      | Some m \<Rightarrow> (Inr (), tr @ [ConsoleError st m]))"

subsection \<open>The trigger class\<close>

definition trigger_get :: "trigger list \<Rightarrow> string \<Rightarrow> trigger option" where
  "trigger_get trs ty = find (\<lambda>tr. ttype tr = ty) trs"

text \<open>
  \<^verbatim>\<open>Trigger.execute\<close> returns the interceptor (named here by the event key) or
  \<^verbatim>\<open>null\<close> when no trigger has the key.
\<close>

definition trigger_execute ::
  "env \<Rightarrow> trigger list \<Rightarrow> string \<Rightarrow> val \<Rightarrow> event list \<Rightarrow> (error + string option) \<times> event list" where
  "trigger_execute env trs ty rw tr =
     (case find (\<lambda>t. ttype t = ty) trs of
        None \<Rightarrow> (Inr None, tr)
      | Some t \<Rightarrow>
          if handler_ok env t rw then (Inr (Some ty), tr @ [HookRun ty rw])
          else (Inl TriggerHandlerError, tr @ [HookRun ty rw]))"

section \<open>The execution orchestrator\<close>

subsection \<open>Computed-field rewrite of the column list\<close>

text \<open>\<^verbatim>\<open>Array.from(new Set(xs))\<close>: the first occurrence of each element, in order.\<close>

definition set_from :: "string list \<Rightarrow> string list" where
  "set_from xs = fold (\<lambda>x acc. if x \<in> set acc then acc else acc @ [x]) xs []"

fun rewrite_step ::
  "env \<Rightarrow> computed_field list \<Rightarrow> string \<Rightarrow>
   string list \<times> computed_field list \<times> string list \<Rightarrow>
   string list \<times> computed_field list \<times> string list" where
  "rewrite_step env cfs field (cols, computedFieldsNeeded, dependeciesArrray) =
     (case find (\<lambda>cf. ccolumn cf = field) cfs of
        None \<Rightarrow> (cols, computedFieldsNeeded, dependeciesArrray)
      | Some computedField \<Rightarrow>
          (let dependencies = extractDependencies env (instruction computedField)
           in (filter (\<lambda>col. col \<noteq> field) (set_from (cols @ dependencies)),
               computedFieldsNeeded @ [computedField],
               dependeciesArrray @ dependencies)))"

definition rewrite_columns ::
  "env \<Rightarrow> computed_field list \<Rightarrow> string list \<Rightarrow>
   string list \<times> computed_field list \<times> string list" where
  "rewrite_columns env cfs cols =
     (if length cfs > 0 then fold (rewrite_step env cfs) cols (cols, [], [])
      else (cols, [], []))"

subsection \<open>Computed-field materialisation\<close>

fun set_prop :: "string \<Rightarrow> val \<Rightarrow> row \<Rightarrow> row" where
  "set_prop k v [] = [(k, v)]"
| "set_prop k v ((k', v') # r) = (if k' = k then (k, v) # r else (k', v') # set_prop k v r)"

text \<open>
  Modelled from the spec: \<^verbatim>\<open>ComputedFieldProcessor.computedFields\<close> is not in the
  repository. "Given raw rows and the computed-field descriptors that were requested,
  returns new rows with each computed column's value materialized from its dependencies,
  leaving unrelated columns untouched."
\<close>

definition computedFields_collab :: "env \<Rightarrow> row list \<Rightarrow> computed_field list \<Rightarrow> row list" where
  "computedFields_collab env rows needed =
     map (\<lambda>r. fold (\<lambda>cf acc. set_prop (ccolumn cf) (compute env cf r) acc) needed r) rows"

text \<open>\<^verbatim>\<open>dependeciesArrray.forEach(key => delete newObj[key])\<close> on a copy of the row.\<close>

definition strip_deps :: "string list \<Rightarrow> row \<Rightarrow> row" where
  "strip_deps deps r = filter (\<lambda>kv. fst kv \<notin> set deps) r"

subsection \<open>The rows of the per-row loop\<close>

definition get_prop :: "row \<Rightarrow> string \<Rightarrow> val" where
  "get_prop r k = (case map_of r k of None \<Rightarrow> VUndef | Some v \<Rightarrow> v)"

function dec :: "nat \<Rightarrow> string" where
  "dec n = (if n < 10 then [char_of (48 + n)] else dec (n div 10) @ [char_of (48 + n mod 10)])"
  by pat_completeness auto
termination
  by (relation "measure id") auto

text \<open>
  The loop is \<^verbatim>\<open>for (index = 0; index < dataset.length; index++)\<close> over
  \<^verbatim>\<open>dataset[index]\<close>. An array gives its elements. \<^verbatim>\<open>null\<close> and \<^verbatim>\<open>undefined\<close>
  raise at \<^verbatim>\<open>.length\<close>. An object has the \<^verbatim>\<open>length\<close> it carries as a property, if
  any: without one \<^verbatim>\<open>0 < undefined\<close> is false and the body never runs.
\<close>

fun dataset_items :: "val \<Rightarrow> error + val list" where
  "dataset_items (VArr xs) = Inr xs"
| "dataset_items VNull = Inl TypeError"
| "dataset_items VUndef = Inl TypeError"
| "dataset_items (VStr s) = Inr (map (\<lambda>c. VStr [c]) s)"
| "dataset_items (VObj r) =
     (case get_prop r ''length'' of
        VNum n \<Rightarrow> Inr (map (\<lambda>i. get_prop r (dec i)) [0..<nat n])
      | VBool b \<Rightarrow> Inr (if b then [get_prop r ''0''] else [])
      | VStr _ \<Rightarrow> Inl Unmodelled
      | VArr _ \<Rightarrow> Inl Unmodelled
      | _ \<Rightarrow> Inr [])"
| "dataset_items _ = Inr []"

subsection \<open>Dispatch\<close>

text \<open>
  One request with no trigger around it (the source has this block twice).
  \<^verbatim>\<open>this.engine.run\<close> raises when the builder's engine is \<^verbatim>\<open>null\<close>.
\<close>

definition dispatch_one ::
  "env \<Rightarrow> engine_ref \<Rightarrow> dml \<Rightarrow> event list \<Rightarrow> (error + row list option) \<times> event list" where
  "dispatch_one env eng d tr =
     (case eng of
        NoEngine \<Rightarrow> (Inl TypeError, tr)
      | EngineHandle \<Rightarrow>
          (let response = engine_run env tr d; tr1 = tr @ [EngineRun d]
           in if status response \<noteq> 200
              then (case returnFormattedError (status response) (message response) tr1 of
                      (Inl e, tr2) \<Rightarrow> (Inl e, tr2)
                    | (Inr _, tr2) \<Rightarrow> (Inr (rdata response), tr2))
              else (Inr (rdata response), tr1)))"

text \<open>The \<^verbatim>\<open>if (beffore)\<close> block of one loop iteration.\<close>

definition before_step ::
  "env \<Rightarrow> engine_ref \<Rightarrow> trigger list \<Rightarrow> string \<Rightarrow> dml \<Rightarrow> val \<Rightarrow> event list \<Rightarrow>
   (error + row list option) \<times> event list" where
  "before_step env eng trs ty newDML d tr =
     (case trigger_execute env trs (''before'' @ ty) d tr of
        (Inl e, tr1) \<Rightarrow> (Inl e, tr1)
      | (Inr interceptor, tr1) \<Rightarrow>
          (case eng of
             NoEngine \<Rightarrow> (Inl TypeError, tr1)
           | EngineHandle \<Rightarrow>
               (let response = engine_run env tr1 newDML; tr2 = tr1 @ [EngineRun newDML]
                in case interceptor of
                     None \<Rightarrow> (Inl TypeError, tr2)
                   | Some i \<Rightarrow>
                       if status response \<noteq> 200
                       then (case returnFormattedError (status response) (message response)
                                    (tr2 @ [Discard i]) of
                               (Inl e, tr3) \<Rightarrow> (Inl e, tr3)
                             | (Inr _, tr3) \<Rightarrow> (Inr (rdata response), tr3 @ [Commit i]))
                       else (Inr (rdata response), tr2 @ [Commit i]))))"

text \<open>The \<^verbatim>\<open>if (after)\<close> block of one loop iteration; it leaves \<^verbatim>\<open>arrayResult\<close> alone.\<close>

definition after_step ::
  "env \<Rightarrow> engine_ref \<Rightarrow> trigger list \<Rightarrow> string \<Rightarrow> dml \<Rightarrow> val \<Rightarrow> event list \<Rightarrow>
   (error + unit) \<times> event list" where
  "after_step env eng trs ty newDML d tr =
     (case eng of
        NoEngine \<Rightarrow> (Inl TypeError, tr)
      | EngineHandle \<Rightarrow>
          (let response = engine_run env tr newDML; tr1 = tr @ [EngineRun newDML]
           in case (if status response \<noteq> 200
                    then returnFormattedError (status response) (message response) tr1
                    else (Inr (), tr1)) of
                (Inl e, tr2) \<Rightarrow> (Inl e, tr2)
              | (Inr _, tr2) \<Rightarrow>
                  (case trigger_execute env trs (''after'' @ ty) d tr2 of
                     (Inl e, tr3) \<Rightarrow> (Inl e, tr3)
                   | (Inr None, tr3) \<Rightarrow> (Inl TypeError, tr3)
                   | (Inr (Some i), tr3) \<Rightarrow> (Inr (), tr3 @ [Commit i]))))"

fun trigger_loop ::
  "env \<Rightarrow> engine_ref \<Rightarrow> trigger list \<Rightarrow> string \<Rightarrow> bool \<Rightarrow> bool \<Rightarrow> dml \<Rightarrow> val list \<Rightarrow>
   row list option \<Rightarrow> event list \<Rightarrow> (error + row list option) \<times> event list" where
  "trigger_loop env eng trs ty beffore after localDML [] arrayResult tr = (Inr arrayResult, tr)"
| "trigger_loop env eng trs ty beffore after localDML (d # ds) arrayResult tr =
     (case (if beffore then before_step env eng trs ty (localDML\<lparr>data := VArr [d]\<rparr>) d tr
            else (Inr arrayResult, tr)) of
        (Inl e, tr1) \<Rightarrow> (Inl e, tr1)
      | (Inr arrayResult1, tr1) \<Rightarrow>
          (case (if after then after_step env eng trs ty (localDML\<lparr>data := VArr [d]\<rparr>) d tr1
                 else (Inr (), tr1)) of
             (Inl e, tr2) \<Rightarrow> (Inl e, tr2)
           | (Inr _, tr2) \<Rightarrow>
               trigger_loop env eng trs ty beffore after localDML ds arrayResult1 tr2))"

text \<open>\<^verbatim>\<open>if (type)\<close>: \<^verbatim>\<open>null\<close> and the empty string are falsy.\<close>

definition phase_of :: "string option \<Rightarrow> string option" where
  "phase_of ty = (case ty of None \<Rightarrow> None | Some s \<Rightarrow> if s = [] then None else Some s)"

definition dispatch ::
  "env \<Rightarrow> engine_ref \<Rightarrow> trigger list \<Rightarrow> dml \<Rightarrow> string option \<Rightarrow> event list \<Rightarrow>
   (error + row list option) \<times> event list" where
  "dispatch env eng trs localDML ty tr =
     (case phase_of ty of
        None \<Rightarrow> dispatch_one env eng localDML tr
      | Some t \<Rightarrow>
          (let beffore = trigger_get trs (''before'' @ t); after = trigger_get trs (''after'' @ t)
           in if length trs > 0 \<and> (found beffore \<or> found after)
              then (case dataset_items (data localDML) of
                      Inl e \<Rightarrow> (Inl e, tr)
                    | Inr items \<Rightarrow>
                        trigger_loop env eng trs t (found beffore) (found after) localDML
                          items (Some []) tr)
              else dispatch_one env eng localDML tr))"

text \<open>
  \<^verbatim>\<open>getResponse\<close> on the object \<open>this\<close> with the descriptor \<open>localDML\<close>. The result has
  the rows returned (\<^const>\<open>None\<close> for \<^verbatim>\<open>undefined\<close>), the descriptor after the assignment
  to \<^verbatim>\<open>localDML.columns\<close>, and the trace.
\<close>

definition getResponse ::
  "env \<Rightarrow> table_obj \<Rightarrow> dml \<Rightarrow> string option \<Rightarrow> event list \<Rightarrow>
   (error + row list option) \<times> dml \<times> event list" where
  "getResponse env this localDML ty tr =
     (case rewrite_columns env (computedFields this) (columns localDML) of
        (cols, computedFieldsNeeded, dependeciesArrray) \<Rightarrow>
          (let localDML1 = localDML\<lparr>columns := cols\<rparr>
           in case dispatch env (engine this) (triggers this) localDML1 ty tr of
                (Inl e, tr1) \<Rightarrow> (Inl e, localDML1, tr1)
              | (Inr arrayResult, tr1) \<Rightarrow>
                  if length computedFieldsNeeded > 0
                  then (case arrayResult of
                          None \<Rightarrow> (Inl TypeError, localDML1, tr1)
                        | Some rows \<Rightarrow>
                            (Inr (Some (map (strip_deps dependeciesArrray)
                                          (computedFields_collab env rows computedFieldsNeeded))),
                             localDML1, tr1))
                  else (Inr arrayResult, localDML1, tr1)))"

section \<open>Terminal operations\<close>

text \<open>
  \<^verbatim>\<open>getResponse\<close> called on the object \<open>r\<close> with its own descriptor (with no argument,
  or with \<^verbatim>\<open>this.dml\<close> as the argument): the assignment to \<^verbatim>\<open>localDML.columns\<close>
  lands in the object.
\<close>

definition run_getResponse ::
  "env \<Rightarrow> ref \<Rightarrow> string option \<Rightarrow> world \<Rightarrow> (error + row list option) \<times> world" where
  "run_getResponse env r ty w =
     (case getResponse env (objs w r) (dml (objs w r)) ty (trace w) of
        (res, d, tr) \<Rightarrow> (res, (modify r (\<lambda>t. t\<lparr>dml := d\<rparr>) w)\<lparr>trace := tr\<rparr>))"

text \<open>\<^verbatim>\<open>result[0] || null\<close>; a row is an object, hence truthy.\<close>

definition first_or_null :: "row list option \<Rightarrow> error + row option" where
  "first_or_null result =
     (case result of
        None \<Rightarrow> Inl TypeError
      | Some [] \<Rightarrow> Inr None
      | Some (x # _) \<Rightarrow> Inr (Some x))"

definition get_body :: "env \<Rightarrow> ref \<Rightarrow> world \<Rightarrow> (error + row list option) \<times> world" where
  "get_body env r w =
     run_getResponse env r None
       (modify r (\<lambda>t. t\<lparr>dml := (dml t)\<lparr>dtype := Select, data := VNull\<rparr>\<rparr>) w)"

definition first_body :: "env \<Rightarrow> ref \<Rightarrow> world \<Rightarrow> (error + row option) \<times> world" where
  "first_body env r w =
     (case run_getResponse env r None
             (modify r (\<lambda>t. t\<lparr>dml := (dml t)\<lparr>dtype := Select, data := VNull,
                                               limit := Some 1\<rparr>\<rparr>) w) of
        (Inl e, w1) \<Rightarrow> (Inl e, w1)
      | (Inr result, w1) \<Rightarrow> (first_or_null result, w1))"

text \<open>\<^verbatim>\<open>typeof v === 'object'\<close> holds of objects, arrays and \<^verbatim>\<open>null\<close>.\<close>

fun typeof_object :: "val \<Rightarrow> bool" where
  "typeof_object (VObj _) = True"
| "typeof_object (VArr _) = True"
| "typeof_object VNull = True"
| "typeof_object _ = False"

fun isArray :: "val \<Rightarrow> bool" where
  "isArray (VArr _) = True"
| "isArray _ = False"

fun array_items :: "val \<Rightarrow> val list" where
  "array_items (VArr xs) = xs"
| "array_items _ = []"

definition insert_body :: "env \<Rightarrow> val \<Rightarrow> ref \<Rightarrow> world \<Rightarrow> (error + val) \<times> world" where
  "insert_body env dat r w =
     (if \<not> isArray dat
      then (Inl (Error ''The insert method requires an array of objects with key-value pairs.''), w)
      else if \<not> list_all (\<lambda>item. typeof_object item \<and> item \<noteq> VNull) (array_items dat)
      then (Inl (Error ''The array must contain only valid objects.''), w)
      else (case run_getResponse env r (Some ''Add'')
                   (modify r (\<lambda>t. t\<lparr>dml := (dml t)\<lparr>dtype := Insert, data := dat\<rparr>\<rparr>) w) of
              (Inl e, w1) \<Rightarrow> (Inl e, w1)
            | (Inr _, w1) \<Rightarrow> (Inr dat, w1)))"

definition update_body :: "env \<Rightarrow> val \<Rightarrow> ref \<Rightarrow> world \<Rightarrow> (error + val) \<times> world" where
  "update_body env dat r w =
     (if \<not> typeof_object dat \<or> isArray dat
      then (Inl (Error ''The update method requires an object with key-value pairs.''), w)
      else if length (dwhere (dml (objs w r))) = 0
      then (Inl (Error
              ''You must specify at least one WHERE condition to perform an update.''), w)
      else (case run_getResponse env r (Some ''Update'')
                   (modify r (\<lambda>t. t\<lparr>dml := (dml t)\<lparr>dtype := Update, data := dat\<rparr>\<rparr>) w) of
              (Inl e, w1) \<Rightarrow> (Inl e, w1)
            | (Inr _, w1) \<Rightarrow> (Inr dat, w1)))"

text \<open>The five aggregate methods set the same three fields.\<close>

fun agg_name :: "agg_type \<Rightarrow> string" where
  "agg_name AggCount = ''COUNT''"
| "agg_name AggSum = ''SUM''"
| "agg_name AggAvg = ''AVG''"
| "agg_name AggMax = ''MAX''"
| "agg_name AggMin = ''MIN''"

fun agg_alias :: "agg_type \<Rightarrow> string" where
  "agg_alias AggCount = ''count''"
| "agg_alias AggSum = ''sum''"
| "agg_alias AggAvg = ''avg''"
| "agg_alias AggMax = ''max''"
| "agg_alias AggMin = ''min''"

definition aggregate_body :: "agg_type \<Rightarrow> string \<Rightarrow> table_obj \<Rightarrow> table_obj" where
  "aggregate_body ag col t =
     t\<lparr>dml := (dml t)\<lparr>dtype := Select,
                       aggregation := Some \<lparr>atype = ag, acolumn = col, aalias = agg_alias ag\<rparr>,
                       columns := [agg_name ag @ ''('' @ col @ '') AS '' @ agg_alias ag]\<rparr>\<rparr>"

subsection \<open>\<^verbatim>\<open>src/lib/Database.ts\<close>\<close>

definition get_m :: "env \<Rightarrow> ref \<Rightarrow> world \<Rightarrow> (error + row list option) \<times> world" where
  "get_m env r w = get_body env r w"

definition first_m :: "env \<Rightarrow> ref \<Rightarrow> world \<Rightarrow> (error + row option) \<times> world" where
  "first_m env r w = first_body env r w"

definition insert_m :: "env \<Rightarrow> val \<Rightarrow> ref \<Rightarrow> world \<Rightarrow> (error + val) \<times> world" where
  "insert_m env dat r w = insert_body env dat r w"

definition update_m :: "env \<Rightarrow> val \<Rightarrow> ref \<Rightarrow> world \<Rightarrow> (error + val) \<times> world" where
  "update_m env dat r w = update_body env dat r w"

text \<open>The aggregates are chain steps here; the column defaults to \<^verbatim>\<open>'*'\<close> in \<^verbatim>\<open>count\<close>.\<close>

definition aggregate_m :: "agg_type \<Rightarrow> string \<Rightarrow> ref \<Rightarrow> world \<Rightarrow> ref \<times> world" where
  "aggregate_m ag col = in_place (aggregate_body ag col)"

definition count_m :: "string \<Rightarrow> ref \<Rightarrow> world \<Rightarrow> ref \<times> world" where
  "count_m = aggregate_m AggCount"

definition sum_m :: "string \<Rightarrow> ref \<Rightarrow> world \<Rightarrow> ref \<times> world" where
  "sum_m = aggregate_m AggSum"

definition avg_m :: "string \<Rightarrow> ref \<Rightarrow> world \<Rightarrow> ref \<times> world" where
  "avg_m = aggregate_m AggAvg"

definition max_m :: "string \<Rightarrow> ref \<Rightarrow> world \<Rightarrow> ref \<times> world" where
  "max_m = aggregate_m AggMax"

definition min_m :: "string \<Rightarrow> ref \<Rightarrow> world \<Rightarrow> ref \<times> world" where
  "min_m = aggregate_m AggMin"

text \<open>
  \<^verbatim>\<open>delete\<close> first runs \<^verbatim>\<open>getResponse(newDml, 'Delete')\<close> on a select descriptor that
  keeps the conditions, then \<^verbatim>\<open>getResponse()\<close> on its own descriptor, and returns the
  rows of the first.
\<close>

definition delete_m :: "env \<Rightarrow> ref \<Rightarrow> world \<Rightarrow> (error + row list option) \<times> world" where
  "delete_m env r w =
     (if length (dwhere (dml (objs w r))) = 0
      then (Inl (Error
              ''You must specify at least one WHERE condition to perform a delete.''), w)
      else
        (let w1 = modify r (\<lambda>t. t\<lparr>dml := (dml t)\<lparr>dtype := Delete\<rparr>\<rparr>) w;
             newDml = (dml (objs w1 r))\<lparr>dtype := Select, columns := [''*''],
                        distinct_flag := False, joins := [], orderBy := [], groupBy := [],
                        limit := None, offset := None, data := VNull, aggregation := None\<rparr>
         in case getResponse env (objs w1 r) newDml (Some ''Delete'') (trace w1) of
              (Inl e, _, tr1) \<Rightarrow> (Inl e, w1\<lparr>trace := tr1\<rparr>)
            | (Inr deleteData, _, tr1) \<Rightarrow>
                (case run_getResponse env r None (w1\<lparr>trace := tr1\<rparr>) of
                   (Inl e, w2) \<Rightarrow> (Inl e, w2)
                 | (Inr _, w2) \<Rightarrow> (Inr deleteData, w2))))"

subsection \<open>\<^verbatim>\<open>part_002\<close>\<close>

definition get_c :: "env \<Rightarrow> ref \<Rightarrow> world \<Rightarrow> (error + row list option) \<times> world" where
  "get_c env r w = (case clone r w of (c, w1) \<Rightarrow> get_body env c w1)"

definition first_c :: "env \<Rightarrow> ref \<Rightarrow> world \<Rightarrow> (error + row option) \<times> world" where
  "first_c env r w = (case clone r w of (c, w1) \<Rightarrow> first_body env c w1)"

definition insert_c :: "env \<Rightarrow> val \<Rightarrow> ref \<Rightarrow> world \<Rightarrow> (error + val) \<times> world" where
  "insert_c env dat r w = (case clone r w of (c, w1) \<Rightarrow> insert_body env dat c w1)"

definition update_c :: "env \<Rightarrow> val \<Rightarrow> ref \<Rightarrow> world \<Rightarrow> (error + val) \<times> world" where
  "update_c env dat r w = (case clone r w of (c, w1) \<Rightarrow> update_body env dat c w1)"

definition delete_c :: "env \<Rightarrow> ref \<Rightarrow> world \<Rightarrow> (error + row list option) \<times> world" where
  "delete_c env r w =
     (case clone r w of
        (c, w1) \<Rightarrow>
          if length (dwhere (dml (objs w1 c))) = 0
          then (Inl (Error
                  ''You must specify at least one WHERE condition to perform a delete.''), w1)
          else run_getResponse env c (Some ''Delete'')
                 (modify c (\<lambda>t. t\<lparr>dml := (dml t)\<lparr>dtype := Delete\<rparr>\<rparr>) w1))"

text \<open>
  The aggregates are terminal here: \<^verbatim>\<open>res = result[0] || null\<close>, then the field named
  by the alias if there is a row and \<^verbatim>\<open>0\<close> if not.
\<close>

definition aggregate_c :: "agg_type \<Rightarrow> env \<Rightarrow> string \<Rightarrow> ref \<Rightarrow> world \<Rightarrow> (error + val) \<times> world" where
  "aggregate_c ag env col r w =
     (case clone r w of
        (c, w1) \<Rightarrow>
          (case run_getResponse env c None
                  (modify c (\<lambda>t. (aggregate_body ag col t)
                                    \<lparr>dml := (dml (aggregate_body ag col t))
                                               \<lparr>data := VNull, limit := Some 1\<rparr>\<rparr>) w1) of
             (Inl e, w2) \<Rightarrow> (Inl e, w2)
           | (Inr result, w2) \<Rightarrow>
               (case first_or_null result of
                  Inl e \<Rightarrow> (Inl e, w2)
                | Inr None \<Rightarrow> (Inr (VNum 0), w2)
                | Inr (Some res) \<Rightarrow> (Inr (get_prop res (agg_alias ag)), w2))))"

definition count_c :: "env \<Rightarrow> string \<Rightarrow> ref \<Rightarrow> world \<Rightarrow> (error + val) \<times> world" where
  "count_c = aggregate_c AggCount"

definition sum_c :: "env \<Rightarrow> string \<Rightarrow> ref \<Rightarrow> world \<Rightarrow> (error + val) \<times> world" where
  "sum_c = aggregate_c AggSum"

definition avg_c :: "env \<Rightarrow> string \<Rightarrow> ref \<Rightarrow> world \<Rightarrow> (error + val) \<times> world" where
  "avg_c = aggregate_c AggAvg"

definition max_c :: "env \<Rightarrow> string \<Rightarrow> ref \<Rightarrow> world \<Rightarrow> (error + val) \<times> world" where
  "max_c = aggregate_c AggMax"

definition min_c :: "env \<Rightarrow> string \<Rightarrow> ref \<Rightarrow> world \<Rightarrow> (error + val) \<times> world" where
  "min_c = aggregate_c AggMin"

section \<open>Observations and example inputs\<close>

text \<open>The requests handed to the engine, in order.\<close>

fun request_of :: "event \<Rightarrow> dml list" where
  "request_of (EngineRun d) = [d]"
| "request_of _ = []"

definition requests :: "event list \<Rightarrow> dml list" where
  "requests tr = concat (map request_of tr)"

text \<open>The descriptor once \<^verbatim>\<open>getResponse\<close> has assigned \<^verbatim>\<open>localDML.columns\<close>.\<close>

definition rewritten :: "env \<Rightarrow> table_obj \<Rightarrow> dml \<Rightarrow> dml" where
  "rewritten env this d =
     d\<lparr>columns := fst (rewrite_columns env (computedFields this) (columns d))\<rparr>"

text \<open>An empty store, three databases, and engines that always give the same answer.\<close>

definition world0 :: world where
  "world0 = \<lparr>objs = (\<lambda>_. new_Table NullRef NullRef NoEngine [] []), nextRef = 0, trace = []\<rparr>"

definition shop :: database_obj where
  "shop = \<lparr>name = ''shop'', db_computedFields = [], db_triggers = []\<rparr>"

definition shop_triggers :: database_obj where
  "shop_triggers =
     \<lparr>name = ''shop'', db_computedFields = [],
      db_triggers = [\<lparr>ttype = ''beforeAdd'', database_ref = ''shop'', table_ref = ''users''\<rparr>,
                     \<lparr>ttype = ''beforeUpdate'', database_ref = ''shop'', table_ref = ''users''\<rparr>]\<rparr>"

definition shop_computed :: database_obj where
  "shop_computed =
     \<lparr>name = ''shop'',
      db_computedFields = [\<lparr>ccolumn = ''total'', instruction = ''price * qty''\<rparr>],
      db_triggers = []\<rparr>"

definition engine_const :: "response \<Rightarrow> env" where
  "engine_const resp =
     \<lparr>engine_run = (\<lambda>_ _. resp), extractDependencies = (\<lambda>_. []),
      compute = (\<lambda>_ _. VNull), handler_ok = (\<lambda>_ _. True)\<rparr>"

definition env_empty :: env where
  "env_empty = engine_const \<lparr>status = 200, rdata = Some [], message = None\<rparr>"

definition env_failing :: env where
  "env_failing = engine_const \<lparr>status = 500, rdata = Some [], message = Some ''boom''\<rparr>"

text \<open>\<^verbatim>\<open>db.table("users")\<close> in the empty store: the builder is object 0.\<close>

definition users_world :: world where
  "users_world = snd (table_of shop ''users'' world0)"

definition users_world_triggers :: world where
  "users_world_triggers = snd (table_of shop_triggers ''users'' world0)"

text \<open>
  The descriptor \<^verbatim>\<open>newDml\<close> that \<^verbatim>\<open>delete\<close> of \<^verbatim>\<open>src/lib/Database.ts\<close> builds from
  its own: a select of all columns that keeps the database, the table and the conditions.
\<close>

definition select_of :: "dml \<Rightarrow> dml" where
  "select_of d =
     d\<lparr>dtype := Select, columns := [''*''], distinct_flag := False, joins := [], orderBy := [],
       groupBy := [], limit := None, offset := None, data := VNull, aggregation := None\<rparr>"

text \<open>A short name for each event, to read a trace at a glance.\<close>

fun label :: "event \<Rightarrow> string" where
  "label (EngineRun _) = ''engine''"
| "label (HookRun k _) = ''hook '' @ k"
| "label (Commit k) = ''commit '' @ k"
| "label (Discard k) = ''discard '' @ k"
| "label (ConsoleError _ _) = ''console.error''"

text \<open>
  The callback \<^verbatim>\<open>q => { q.where("age", ">", 25).orWhere("name", "=", "Jane") }\<close>, run
  against each version of the builder.
\<close>

definition group_callback_m :: "ref \<Rightarrow> world \<Rightarrow> world" where
  "group_callback_m q w =
     (case where_m ''age'' ''>'' (VNum 25) q w of
        (q1, w1) \<Rightarrow> snd (orWhere_m ''name'' ''='' (VStr ''Jane'') q1 w1))"

definition group_callback_c :: "ref \<Rightarrow> world \<Rightarrow> world" where
  "group_callback_c q w =
     (case where_c ''age'' ''>'' (VNum 25) q w of
        (q1, w1) \<Rightarrow> snd (orWhere_c ''name'' ''='' (VStr ''Jane'') q1 w1))"

text \<open>Payloads: two rows for \<^verbatim>\<open>insert\<close>, one row for \<^verbatim>\<open>update\<close>.\<close>

definition two_rows :: val where
  "two_rows = VArr [VObj [(''name'', VStr ''Ann'')], VObj [(''name'', VStr ''Bob'')]]"

definition one_row :: val where
  "one_row = VObj [(''name'', VStr ''Bob'')]"

text \<open>\<^verbatim>\<open>db.table("users").where("id", "=", 1)\<close> in \<^verbatim>\<open>src/lib/Database.ts\<close>.\<close>

definition users_world_id :: world where
  "users_world_id = snd (where_m ''id'' ''='' (VNum 1) 0 users_world)"

text \<open>
  The dependencies of the computed fields are real columns: no dependency bears the name
  of a computed field.
\<close>

definition real_dependencies :: "env \<Rightarrow> computed_field list \<Rightarrow> bool" where
  "real_dependencies env cfs =
     list_all (\<lambda>cf. list_all (\<lambda>x. find (\<lambda>cf'. ccolumn cf' = x) cfs = None)
                       (extractDependencies env (instruction cf))) cfs"

text \<open>
  A table \<^verbatim>\<open>items\<close> with one stored row and the computed field \<^verbatim>\<open>total\<close>, which
  reads \<^verbatim>\<open>price\<close> and \<^verbatim>\<open>qty\<close>. The engine answers every request with the stored row,
  cut down to the columns requested.
\<close>

definition stored_item :: row where
  "stored_item = [(''sku'', VStr ''A1''), (''price'', VNum 2), (''qty'', VNum 3)]"

definition env_totals :: env where
  "env_totals =
     \<lparr>engine_run = (\<lambda>_ d. \<lparr>status = 200,
                               rdata = Some [if ''*'' \<in> set (columns d) then stored_item
                                             else filter (\<lambda>kv. fst kv \<in> set (columns d))
                                                    stored_item],
                               message = None\<rparr>),
      extractDependencies = (\<lambda>_. [''price'', ''qty'']),
      compute = (\<lambda>_ rw. case (get_prop rw ''price'', get_prop rw ''qty'') of
                            (VNum a, VNum b) \<Rightarrow> VNum (a * b)
                          | _ \<Rightarrow> VNull),
      handler_ok = (\<lambda>_ _. True)\<rparr>"

definition items_world :: world where
  "items_world = snd (table_of shop_computed ''items'' world0)"

section \<open>Facts about the orchestrator\<close>

lemma requests_Nil [simp]: "requests [] = []"
  by (simp add: requests_def)

lemma requests_Cons [simp]: "requests (e # tr) = request_of e @ requests tr"
  by (simp add: requests_def)

lemma requests_append [simp]: "requests (a @ b) = requests a @ requests b"
  by (simp add: requests_def)

lemma requests_dispatch_one:
  "requests (snd (dispatch_one env EngineHandle d tr)) = requests tr @ [d]"
  by (simp add: dispatch_one_def Let_def returnFormattedError_def split: option.splits)

lemma dispatch_one_result:
  "status (engine_run env tr d) = 200 \<or> message (engine_run env tr d) \<noteq> None \<Longrightarrow>
   fst (dispatch_one env EngineHandle d tr) = Inr (rdata (engine_run env tr d))"
  by (auto simp add: dispatch_one_def Let_def returnFormattedError_def split: option.splits)

lemma dispatch_no_phase: "dispatch env eng trs d None tr = dispatch_one env eng d tr"
  by (simp add: dispatch_def phase_of_def)

lemma getResponse_dml: "fst (snd (getResponse env this d ty tr)) = rewritten env this d"
  by (simp add: getResponse_def rewritten_def Let_def split: prod.splits sum.splits option.splits)

lemma getResponse_trace:
  "snd (snd (getResponse env this d ty tr)) =
   snd (dispatch env (engine this) (triggers this) (rewritten env this d) ty tr)"
  by (simp add: getResponse_def rewritten_def Let_def split: prod.splits sum.splits option.splits)

lemma getResponse_empty_rows:
  assumes "fst (dispatch env (engine this) (triggers this) (rewritten env this d) ty tr)
             = Inr (Some [])"
  shows "fst (getResponse env this d ty tr) = Inr (Some [])"
proof -
  obtain cols needed deps where
    rc: "rewrite_columns env (computedFields this) (columns d) = (cols, needed, deps)"
    by (cases "rewrite_columns env (computedFields this) (columns d)")
  obtain tr1 where
    "dispatch env (engine this) (triggers this) (d\<lparr>columns := cols\<rparr>) ty tr
       = (Inr (Some []), tr1)"
    using assms
    by (cases "dispatch env (engine this) (triggers this) (d\<lparr>columns := cols\<rparr>) ty tr")
      (simp add: rewritten_def rc)
  then show ?thesis
    by (simp add: getResponse_def rc computedFields_collab_def Let_def)
qed

lemma run_getResponse_eq:
  "run_getResponse env r ty w =
     (fst (getResponse env (objs w r) (dml (objs w r)) ty (trace w)),
      (modify r (\<lambda>t. t\<lparr>dml := rewritten env (objs w r) (dml (objs w r))\<rparr>) w)
        \<lparr>trace := snd (dispatch env (engine (objs w r)) (triggers (objs w r))
                         (rewritten env (objs w r) (dml (objs w r))) ty (trace w))\<rparr>)"
proof -
  obtain res d tr where
    g: "getResponse env (objs w r) (dml (objs w r)) ty (trace w) = (res, d, tr)"
    by (cases "getResponse env (objs w r) (dml (objs w r)) ty (trace w)")
  have "d = rewritten env (objs w r) (dml (objs w r))"
    using getResponse_dml [of env "objs w r" "dml (objs w r)" ty "trace w"] by (simp add: g)
  moreover have "tr = snd (dispatch env (engine (objs w r)) (triggers (objs w r))
                         (rewritten env (objs w r) (dml (objs w r))) ty (trace w))"
    using getResponse_trace [of env "objs w r" "dml (objs w r)" ty "trace w"] by (simp add: g)
  ultimately show ?thesis
    by (simp add: run_getResponse_def g)
qed

lemma first_body_spec:
  assumes "engine (objs w r) = EngineHandle"
  shows "\<exists>d. requests (trace (snd (first_body env r w))) = requests (trace w) @ [d]
      \<and> limit d = Some 1 \<and> data d = VNull
      \<and> (rdata (engine_run env (trace w) d) = Some []
           \<and> (status (engine_run env (trace w) d) = 200
                \<or> message (engine_run env (trace w) d) \<noteq> None)
         \<longrightarrow> fst (first_body env r w) = Inr None)"
proof -
  define w1 where
    "w1 = modify r (\<lambda>t. t\<lparr>dml := (dml t)\<lparr>dtype := Select, data := VNull,
                                          limit := Some 1\<rparr>\<rparr>) w"
  define d where "d = rewritten env (objs w1 r) (dml (objs w1 r))"
  have tr: "trace w1 = trace w" and eng: "engine (objs w1 r) = EngineHandle"
    using assms by (simp_all add: w1_def modify_def)
  have req: "requests (trace (snd (first_body env r w))) = requests (trace w) @ [d]"
    by (simp add: first_body_def w1_def [symmetric] run_getResponse_eq d_def [symmetric]
          dispatch_no_phase eng requests_dispatch_one tr split: sum.splits)
  have lim: "limit d = Some 1" "data d = VNull"
    by (simp_all add: d_def rewritten_def w1_def modify_def)
  have res: "fst (first_body env r w) = Inr None"
    if "rdata (engine_run env (trace w) d) = Some []"
       "status (engine_run env (trace w) d) = 200
          \<or> message (engine_run env (trace w) d) \<noteq> None"
  proof -
    have "fst (dispatch_one env EngineHandle d (trace w)) = Inr (Some [])"
      using that dispatch_one_result [of env "trace w" d] by simp
    then have "fst (getResponse env (objs w1 r) (dml (objs w1 r)) None (trace w1)) = Inr (Some [])"
      by (intro getResponse_empty_rows) (simp add: dispatch_no_phase d_def tr eng)
    then show ?thesis
      by (simp add: first_body_def w1_def [symmetric] run_getResponse_eq first_or_null_def)
  qed
  show ?thesis using req lim res by blast
qed

lemma nonempty_array_iff: "nonempty_array v \<longleftrightarrow> (\<exists>x xs. v = VArr (x # xs))"
  by (cases v) (auto simp: neq_Nil_conv)

section \<open>The claims\<close>

text \<open>
  C5. The chain \<^verbatim>\<open>table("users").where("age", ">", 18).orWhere("name", "=", "Alice")\<close>
  produces exactly the two-node WHERE sequence: the leaf on \<^verbatim>\<open>age\<close> with connective AND
  (the first node's connective is stored as AND), then the leaf on \<^verbatim>\<open>name\<close> with
  connective OR. This holds in both versions of the builder, for every database and
  every store.
\<close>

theorem where_orWhere_sequence:
  "(let (r0, w1) = table_of db ''users'' w;
        (r1, w2) = where_m ''age'' ''>'' (VNum 18) r0 w1;
        (r2, w3) = orWhere_m ''name'' ''='' (VStr ''Alice'') r1 w2
    in dwhere (dml (objs w3 r2)))
   = [Leaf ''age'' ''>'' (VNum 18) AND, Leaf ''name'' ''='' (VStr ''Alice'') OR]
   \<and>
   (let (r0, w1) = table_of db ''users'' w;
        (r1, w2) = where_c ''age'' ''>'' (VNum 18) r0 w1;
        (r2, w3) = orWhere_c ''name'' ''='' (VStr ''Alice'') r1 w2
    in dwhere (dml (objs w3 r2)))
   = [Leaf ''age'' ''>'' (VNum 18) AND, Leaf ''name'' ''='' (VStr ''Alice'') OR]"
  by (simp add: alloc_def clone_def modify_def in_place_def on_clone_def new_Table_def
        table_of_def push_where_def where_body_def where_m_def where_c_def orWhere_body_def
        orWhere_m_def orWhere_c_def)

text \<open>
  C9. \<^verbatim>\<open>whereBetween(column, [lo, hi])\<close> leaves the WHERE sequence as it was when either
  bound is \<^verbatim>\<open>undefined\<close>, and otherwise appends exactly one BETWEEN leaf holding the
  pair; \<^verbatim>\<open>whereIn(column, values)\<close> appends exactly one IN leaf when \<^verbatim>\<open>values\<close> is a
  non-empty array, and otherwise (empty, or not an array) leaves the sequence as it
  was. The sequence is that of the builder returned, compared with the receiver's
  before the call; both versions of the builder behave so.
\<close>

theorem whereBetween_whereIn_append_or_skip:
  "(let (r1, w1) = whereBetween_m col (lo, hi) r w in dwhere (dml (objs w1 r1)))
     = (if lo = VUndef \<or> hi = VUndef then dwhere (dml (objs w r))
        else dwhere (dml (objs w r))
               @ [Leaf col ''BETWEEN'' (VArr [lo, hi]) (nextType (objs w r))])
   \<and> (let (r1, w1) = whereBetween_c col (lo, hi) r w in dwhere (dml (objs w1 r1)))
     = (if lo = VUndef \<or> hi = VUndef then dwhere (dml (objs w r))
        else dwhere (dml (objs w r))
               @ [Leaf col ''BETWEEN'' (VArr [lo, hi]) (nextType (objs w r))])
   \<and> (let (r1, w1) = whereIn_m col vs r w in dwhere (dml (objs w1 r1)))
     = (if \<exists>x xs. vs = VArr (x # xs)
        then dwhere (dml (objs w r)) @ [Leaf col ''IN'' vs (nextType (objs w r))]
        else dwhere (dml (objs w r)))
   \<and> (let (r1, w1) = whereIn_c col vs r w in dwhere (dml (objs w1 r1)))
     = (if \<exists>x xs. vs = VArr (x # xs)
        then dwhere (dml (objs w r)) @ [Leaf col ''IN'' vs (nextType (objs w r))]
        else dwhere (dml (objs w r)))"
  by (simp add: alloc_def clone_def modify_def in_place_def on_clone_def push_where_def
        whereBetween_body_def whereIn_body_def whereBetween_m_def whereIn_m_def
        whereBetween_c_def whereIn_c_def nonempty_array_iff)

theorem whereBetween_whereIn_witness:
  "(let (r1, w1) = whereBetween_m ''age'' (VNum 20, VUndef) 0 users_world
    in dwhere (dml (objs w1 r1))) = []
   \<and> (let (r1, w1) = whereBetween_c ''age'' (VNum 20, VNum 30) 0 users_world
      in dwhere (dml (objs w1 r1))) = [Leaf ''age'' ''BETWEEN'' (VArr [VNum 20, VNum 30]) AND]
   \<and> (let (r1, w1) = whereIn_m ''id'' (VArr [VNum 1, VNum 2]) 0 users_world
      in dwhere (dml (objs w1 r1))) = [Leaf ''id'' ''IN'' (VArr [VNum 1, VNum 2]) AND]
   \<and> (let (r1, w1) = whereIn_c ''id'' (VArr []) 0 users_world
      in dwhere (dml (objs w1 r1))) = []"
  using whereBetween_whereIn_append_or_skip
          [where col = "''age''" and lo = "VNum 20" and hi = VUndef and r = 0
             and w = users_world and vs = "VArr [VNum 1, VNum 2]"]
        whereBetween_whereIn_append_or_skip
          [where col = "''id''" and lo = "VNum 20" and hi = "VNum 30" and r = 0
             and w = users_world and vs = "VArr []"]
  by (simp add: alloc_def clone_def modify_def in_place_def on_clone_def new_Table_def
        table_of_def world0_def shop_def users_world_def push_where_def whereBetween_body_def
        whereIn_body_def whereBetween_m_def whereIn_m_def whereBetween_c_def whereIn_c_def)

text \<open>
  C10. In every state of a builder that holds the engine (every builder made by
  \<^verbatim>\<open>Database.table\<close> and every builder chained from one; a builder whose engine is
  \<^verbatim>\<open>null\<close> cannot dispatch), \<^verbatim>\<open>first()\<close> hands the engine exactly one descriptor; its
  \<^verbatim>\<open>limit\<close> is 1, whatever the limit was before, and its \<^verbatim>\<open>data\<close> is \<^verbatim>\<open>null\<close>. When
  the engine answers with an empty row set (with status 200, or with another status and
  a message to print), \<^verbatim>\<open>first()\<close> returns \<^verbatim>\<open>null\<close>: it returns normally, and the value
  is not \<^verbatim>\<open>undefined\<close>. Both versions of the builder behave so.
\<close>

theorem first_limit_one_returns_null:
  assumes "engine (objs w r) = EngineHandle"
  shows
  "(\<exists>d. requests (trace (snd (first_m env r w))) = requests (trace w) @ [d]
       \<and> limit d = Some 1 \<and> data d = VNull
       \<and> (rdata (engine_run env (trace w) d) = Some []
            \<and> (status (engine_run env (trace w) d) = 200
                 \<or> message (engine_run env (trace w) d) \<noteq> None)
          \<longrightarrow> fst (first_m env r w) = Inr None))
   \<and> (\<exists>d. requests (trace (snd (first_c env r w))) = requests (trace w) @ [d]
       \<and> limit d = Some 1 \<and> data d = VNull
       \<and> (rdata (engine_run env (trace w) d) = Some []
            \<and> (status (engine_run env (trace w) d) = 200
                 \<or> message (engine_run env (trace w) d) \<noteq> None)
          \<longrightarrow> fst (first_c env r w) = Inr None))"
proof
  show "\<exists>d. requests (trace (snd (first_m env r w))) = requests (trace w) @ [d]
       \<and> limit d = Some 1 \<and> data d = VNull
       \<and> (rdata (engine_run env (trace w) d) = Some []
            \<and> (status (engine_run env (trace w) d) = 200
                 \<or> message (engine_run env (trace w) d) \<noteq> None)
          \<longrightarrow> fst (first_m env r w) = Inr None)"
    unfolding first_m_def by (rule first_body_spec [OF assms])
next
  obtain c w1 where cl: "clone r w = (c, w1)"
    by (cases "clone r w")
  then have tr: "trace w1 = trace w" and eng: "engine (objs w1 c) = EngineHandle"
    using assms by (auto simp add: clone_def alloc_def)
  show "\<exists>d. requests (trace (snd (first_c env r w))) = requests (trace w) @ [d]
       \<and> limit d = Some 1 \<and> data d = VNull
       \<and> (rdata (engine_run env (trace w) d) = Some []
            \<and> (status (engine_run env (trace w) d) = 200
                 \<or> message (engine_run env (trace w) d) \<noteq> None)
          \<longrightarrow> fst (first_c env r w) = Inr None)"
    using first_body_spec [OF eng, of env] by (simp add: first_c_def cl tr)
qed

theorem first_limit_one_witness:
  "(let w = snd (limit_m 10 0 users_world)
    in engine (objs w 0) = EngineHandle
       \<and> limit (dml (objs w 0)) = Some 10
       \<and> rdata (engine_run env_empty [] (dml (objs w 0))) = Some []
       \<and> map limit (requests (trace (snd (first_m env_empty 0 w)))) = [Some 1]
       \<and> map data (requests (trace (snd (first_m env_empty 0 w)))) = [VNull]
       \<and> fst (first_m env_empty 0 w) = Inr None
       \<and> map limit (requests (trace (snd (first_c env_empty 0 w)))) = [Some 1]
       \<and> fst (first_c env_empty 0 w) = Inr None)"
  using first_limit_one_returns_null [of "snd (limit_m 10 0 users_world)" 0 env_empty]
  by (simp add: alloc_def clone_def modify_def in_place_def on_clone_def new_Table_def
        table_of_def world0_def shop_def users_world_def engine_const_def env_empty_def
        limit_body_def limit_m_def getResponse_def rewrite_columns_def dispatch_def phase_of_def
        dispatch_one_def run_getResponse_def returnFormattedError_def trigger_get_def found_def
        first_body_def first_m_def first_c_def first_or_null_def Let_def)

text \<open>
  C1. Branch isolation: with a base builder \<open>B\<close> holding one WHERE node, deriving
  \<^verbatim>\<open>B.where(x)\<close> and \<^verbatim>\<open>B.where(y)\<close> should leave \<open>B\<close>'s descriptor as it was, and the
  request of the second branch's \<^verbatim>\<open>get()\<close> should not contain \<open>x\<close>. In
  \<^verbatim>\<open>src/lib/Database.ts\<close> it does not hold: \<^verbatim>\<open>where\<close> pushes onto the receiver's own
  sequence and returns the receiver. With \<open>B = table("users").where("a", "=", 1)\<close>,
  \<open>x\<close> the leaf on \<^verbatim>\<open>x\<close> and \<open>y\<close> the leaf on \<^verbatim>\<open>y\<close>: after the first branch \<open>B\<close> holds
  two nodes, and the request of the second branch holds \<open>x\<close> between the base node and
  \<open>y\<close>.
\<close>

theorem where_m_contaminates_base:
  "(let (b, w1) = where_m ''a'' ''='' (VNum 1) 0 users_world;
        (bx, w2) = where_m ''x'' ''='' (VNum 2) b w1;
        (by, w3) = where_m ''y'' ''='' (VNum 3) b w2;
        (res, w4) = get_m env_empty by w3
    in dwhere (dml (objs w1 b)) = [Leaf ''a'' ''='' (VNum 1) AND]
       \<and> bx = b \<and> by = b
       \<and> dwhere (dml (objs w2 b)) =
           [Leaf ''a'' ''='' (VNum 1) AND, Leaf ''x'' ''='' (VNum 2) AND]
       \<and> map dwhere (requests (trace w4)) =
           [[Leaf ''a'' ''='' (VNum 1) AND, Leaf ''x'' ''='' (VNum 2) AND,
             Leaf ''y'' ''='' (VNum 3) AND]])"
  by (simp add: alloc_def clone_def modify_def in_place_def on_clone_def new_Table_def
        table_of_def world0_def shop_def users_world_def engine_const_def env_empty_def
        push_where_def where_body_def where_m_def where_c_def getResponse_def
        rewrite_columns_def dispatch_def phase_of_def dispatch_one_def run_getResponse_def
        returnFormattedError_def trigger_get_def found_def get_body_def get_m_def get_c_def
        Let_def)

text \<open>
  The version of \<^verbatim>\<open>part_002\<close> has the property, for every allocated base builder,
  every pair of conditions and every engine: the base is the same object value after
  both branches and the \<^verbatim>\<open>get()\<close>, and the one request dispatched holds the base's
  sequence followed by \<open>y\<close> alone.
\<close>

lemma get_body_requests:
  assumes "engine (objs w r) = EngineHandle"
  shows "requests (trace (snd (get_body env r w))) =
     requests (trace w)
       @ [rewritten env (objs w r) ((dml (objs w r))\<lparr>dtype := Select, data := VNull\<rparr>)]"
  using assms
  by (simp add: get_body_def run_getResponse_eq dispatch_no_phase requests_dispatch_one
        modify_def rewritten_def)

lemma get_body_frame: "r' \<noteq> r \<Longrightarrow> objs (snd (get_body env r w)) r' = objs w r'"
  by (simp add: get_body_def run_getResponse_eq modify_def)

lemma dwhere_rewritten [simp]: "dwhere (rewritten env t d) = dwhere d"
  by (simp add: rewritten_def)

lemma where_c_isolates_branches:
  assumes "b < nextRef w" and "engine (objs w b) = EngineHandle"
  shows "(let (bx, w1) = where_c cx ox vx b w;
              (by, w2) = where_c cy oy vy b w1;
              (res, w3) = get_c env by w2
          in objs w1 b = objs w b \<and> objs w3 b = objs w b
             \<and> map dwhere (requests (trace w3)) =
                 map dwhere (requests (trace w))
                   @ [dwhere (dml (objs w b)) @ [Leaf cy oy vy (nextType (objs w b))]])"
proof -
  define n where "n = nextRef w"
  define w1 where "w1 = snd (where_c cx ox vx b w)"
  define w2 where "w2 = snd (where_c cy oy vy b w1)"
  define c where "c = fst (clone (Suc n) w2)"
  define w2' where "w2' = snd (clone (Suc n) w2)"
  have s1: "where_c cx ox vx b w = (n, w1)"
    by (simp add: w1_def n_def where_c_def on_clone_def clone_def alloc_def)
  have n1: "nextRef w1 = Suc n" and o1: "objs w1 b = objs w b" and t1: "trace w1 = trace w"
    using assms
    by (simp_all add: w1_def n_def where_c_def on_clone_def clone_def alloc_def modify_def)
  have s2: "where_c cy oy vy b w1 = (Suc n, w2)"
    by (simp add: w2_def n1 where_c_def on_clone_def clone_def alloc_def)
  have o2: "objs w2 b = objs w b" and t2: "trace w2 = trace w"
    and y2: "dwhere (dml (objs w2 (Suc n))) =
               dwhere (dml (objs w b)) @ [Leaf cy oy vy (nextType (objs w b))]"
    and n2: "nextRef w2 = Suc (Suc n)"
    using assms
    by (simp_all add: w2_def n1 o1 t1 n_def where_c_def on_clone_def clone_def alloc_def
          modify_def where_body_def push_where_def)
  have e2: "engine (objs w2 (Suc n)) = EngineHandle"
    using assms
    by (simp add: w2_def n1 o1 n_def where_c_def on_clone_def clone_def alloc_def
          modify_def where_body_def push_where_def)
  have c: "c = Suc (Suc n)" and o2': "objs w2' b = objs w b" and t2': "trace w2' = trace w"
    and y2': "objs w2' c = objs w2 (Suc n)"
    using assms by (simp_all add: c_def w2'_def clone_def alloc_def n2 o2 t2 n_def)
  have g: "get_c env (Suc n) w2 = get_body env c w2'"
    by (simp add: get_c_def c_def w2'_def split: prod.splits)
  have "b \<noteq> c" using assms by (simp add: c n_def)
  then have o3: "objs (snd (get_body env c w2')) b = objs w b"
    by (simp add: get_body_frame o2')
  have r3: "map dwhere (requests (trace (snd (get_body env c w2')))) =
              map dwhere (requests (trace w))
                @ [dwhere (dml (objs w b)) @ [Leaf cy oy vy (nextType (objs w b))]]"
    by (simp add: get_body_requests t2' y2' y2 e2)
  obtain res w3 where gb: "get_body env c w2' = (res, w3)"
    by (cases "get_body env c w2'")
  show ?thesis
    using o3 r3 by (simp add: s1 s2 g o1 gb)
qed

text \<open>
  C6. \<^verbatim>\<open>whereGroup(callback)\<close> should append one group node whose conditions are the
  WHERE sequence the callback built, so that \<^verbatim>\<open>table("users").whereGroup(q =>
  q.where("age",">",25).orWhere("name","=","Jane")).where("status","=","active")\<close> gives a
  group of two leaves followed by the status leaf. In \<^verbatim>\<open>part_002\<close> it does not hold:
  every chain step the callback takes works on a clone of the sub-builder, and
  \<^verbatim>\<open>whereGroup\<close> reads the conditions from the sub-builder itself, which no step has
  touched. The group node comes out with no conditions.
\<close>

theorem whereGroup_c_loses_conditions:
  "(let (r0, w1) = table_of shop ''users'' world0;
        (r1, w2) = whereGroup_c group_callback_c r0 w1;
        (r2, w3) = where_c ''status'' ''='' (VStr ''active'') r1 w2
    in dwhere (dml (objs w3 r2)))
   = [Group AND [], Leaf ''status'' ''='' (VStr ''active'') AND]"
  by (simp add: alloc_def clone_def modify_def in_place_def on_clone_def new_Table_def
        table_of_def world0_def shop_def push_where_def where_body_def where_m_def where_c_def
        orWhere_body_def orWhere_m_def orWhere_c_def whereGroup_c_def group_callback_c_def
        Let_def)

text \<open>
  In \<^verbatim>\<open>src/lib/Database.ts\<close> the same chain gives the sequence of the claim, and for
  every callback the group appended holds what the callback left in the sub-builder.
\<close>

lemma whereGroup_m_example:
  "(let (r0, w1) = table_of shop ''users'' world0;
        (r1, w2) = whereGroup_m group_callback_m r0 w1;
        (r2, w3) = where_m ''status'' ''='' (VStr ''active'') r1 w2
    in dwhere (dml (objs w3 r2)))
   = [Group AND [Leaf ''age'' ''>'' (VNum 25) AND, Leaf ''name'' ''='' (VStr ''Jane'') OR],
      Leaf ''status'' ''='' (VStr ''active'') AND]"
  by (simp add: alloc_def clone_def modify_def in_place_def on_clone_def new_Table_def
        table_of_def world0_def shop_def engine_as_ident_def push_where_def where_body_def
        where_m_def where_c_def orWhere_body_def orWhere_m_def orWhere_c_def whereGroup_m_def
        group_callback_m_def Let_def)

lemma whereGroup_m_conditions:
  "(let g = nextRef w;
        w1 = snd (alloc (new_Table (table (dml (objs w r)))
                           (engine_as_ident (engine (objs w r))) NoEngine [] []) w);
        w2 = callback g w1;
        (r', w3) = whereGroup_m callback r w
    in dwhere (dml (objs w1 g)) = []
       \<and> r' = r
       \<and> dwhere (dml (objs w3 r)) =
           dwhere (dml (objs w2 r)) @ [Group (nextType (objs w2 r)) (dwhere (dml (objs w2 g)))])"
  by (simp add: whereGroup_m_def alloc_def new_Table_def modify_def push_where_def Let_def)

lemma on_clone_frame: "r' < nextRef w \<Longrightarrow> objs (snd (on_clone f r w)) r' = objs w r'"
  by (simp add: on_clone_def clone_def alloc_def modify_def)

lemma group_callback_c_frame:
  "g < nextRef w' \<Longrightarrow> objs (group_callback_c g w') g = objs w' g"
  by (simp add: group_callback_c_def where_c_def orWhere_c_def on_clone_def clone_def alloc_def
        modify_def)

lemma whereGroup_c_untouched_sub_builder:
  assumes "\<And>g w'. g < nextRef w' \<Longrightarrow> objs (callback g w') g = objs w' g"
  shows "(let (r', w3) = whereGroup_c callback r w
          in \<exists>ns ty. dwhere (dml (objs w3 r')) = ns @ [Group ty []])"
  using assms
  by (simp add: whereGroup_c_def clone_def alloc_def new_Table_def modify_def push_where_def
        Let_def)

text \<open>
  C2. On a status other than 200 a terminal operation should throw, the rest of the
  per-row loop should not run, and the interceptor of a before-hook should be discarded
  and not committed. The code does none of it: \<^verbatim>\<open>returnFormattedError\<close> prints and
  returns, so control falls through. With an engine that always answers status 500,
  \<^verbatim>\<open>get()\<close> returns the answer's rows normally, in both versions; and \<^verbatim>\<open>insert\<close> of
  two rows with a \<^verbatim>\<open>beforeAdd\<close> trigger returns normally, after discarding and then
  committing the interceptor of the first row and going on to the second row.
\<close>

theorem engine_failure_is_swallowed:
  "fst (get_m env_failing 0 users_world) = Inr (Some [])
   \<and> map label (trace (snd (get_m env_failing 0 users_world))) = [''engine'', ''console.error'']
   \<and> fst (get_c env_failing 0 users_world) = Inr (Some [])
   \<and> map label (trace (snd (get_c env_failing 0 users_world))) = [''engine'', ''console.error'']
   \<and> fst (insert_m env_failing two_rows 0 users_world_triggers) = Inr two_rows
   \<and> map label (trace (snd (insert_m env_failing two_rows 0 users_world_triggers))) =
       [''hook beforeAdd'', ''engine'', ''discard beforeAdd'', ''console.error'',
        ''commit beforeAdd'',
        ''hook beforeAdd'', ''engine'', ''discard beforeAdd'', ''console.error'',
        ''commit beforeAdd'']
   \<and> fst (insert_c env_failing two_rows 0 users_world_triggers) = Inr two_rows
   \<and> map label (trace (snd (insert_c env_failing two_rows 0 users_world_triggers))) =
       [''hook beforeAdd'', ''engine'', ''discard beforeAdd'', ''console.error'',
        ''commit beforeAdd'',
        ''hook beforeAdd'', ''engine'', ''discard beforeAdd'', ''console.error'',
        ''commit beforeAdd'']"
  by (simp add: alloc_def clone_def modify_def in_place_def on_clone_def new_Table_def
        table_of_def world0_def shop_def users_world_def engine_const_def env_failing_def
        shop_triggers_def users_world_triggers_def two_rows_def getResponse_def
        rewrite_columns_def dispatch_def phase_of_def dispatch_one_def run_getResponse_def
        returnFormattedError_def trigger_get_def found_def trigger_execute_def before_step_def
        after_step_def get_body_def get_m_def get_c_def insert_body_def insert_m_def
        insert_c_def Let_def)

text \<open>
  It is so for every request and every status: whenever the answer carries a message to
  print, the path with no trigger returns the answer's data normally.
\<close>

lemma dispatch_one_returns_normally:
  assumes "message (engine_run env tr d) = Some m"
  shows "fst (dispatch_one env EngineHandle d tr) = Inr (rdata (engine_run env tr d))"
  using assms dispatch_one_result [of env tr d] by simp

text \<open>
  C3. \<^verbatim>\<open>update(data)\<close> with at least one WHERE node should dispatch one engine request
  per payload row when an Update trigger is registered. The payload of \<^verbatim>\<open>update\<close> is one
  row object, and the loop of \<^verbatim>\<open>getResponse\<close> runs over \<^verbatim>\<open>dataset.length\<close>, which
  a row object does not have: with a \<^verbatim>\<open>beforeUpdate\<close> trigger registered the body
  never runs. No request reaches the engine, no hook runs, and \<^verbatim>\<open>update\<close> returns its
  argument; both versions behave so.
\<close>

theorem update_with_trigger_dispatches_nothing:
  "(let (b, w1) = where_m ''id'' ''='' (VNum 1) 0 users_world_triggers;
        (res, w2) = update_m env_empty one_row b w1
    in dwhere (dml (objs w1 b)) = [Leaf ''id'' ''='' (VNum 1) AND]
       \<and> map ttype (triggers (objs w1 b)) = [''beforeAdd'', ''beforeUpdate'']
       \<and> res = Inr one_row \<and> trace w2 = [])
   \<and> (let (b, w1) = where_c ''id'' ''='' (VNum 1) 0 users_world_triggers;
          (res, w2) = update_c env_empty one_row b w1
      in dwhere (dml (objs w1 b)) = [Leaf ''id'' ''='' (VNum 1) AND]
         \<and> map ttype (triggers (objs w1 b)) = [''beforeAdd'', ''beforeUpdate'']
         \<and> res = Inr one_row \<and> trace w2 = [])"
  by (simp add: alloc_def clone_def modify_def in_place_def on_clone_def new_Table_def
        table_of_def world0_def engine_const_def env_empty_def shop_triggers_def
        users_world_triggers_def one_row_def push_where_def where_body_def where_m_def
        where_c_def getResponse_def rewrite_columns_def dispatch_def phase_of_def
        dispatch_one_def run_getResponse_def returnFormattedError_def trigger_get_def found_def
        update_body_def update_m_def update_c_def get_prop_def Let_def)

text \<open>
  The other two parts of C3 hold in both versions: with no WHERE node \<^verbatim>\<open>update\<close>
  rejects and the trace stays as it was; with a WHERE node, a row object and no Update
  trigger it hands the engine exactly one request, which carries the row.
\<close>

lemma dispatch_no_trigger:
  assumes "trigger_get trs (''before'' @ t) = None" "trigger_get trs (''after'' @ t) = None"
  shows "dispatch env eng trs d (Some t) tr = dispatch_one env eng d tr"
  using assms by (simp add: dispatch_def phase_of_def found_def Let_def)

lemma update_body_without_where:
  assumes "dwhere (dml (objs w r)) = []"
  shows "\<exists>m. update_body env dat r w = (Inl (Error m), w)"
  using assms by (simp add: update_body_def)

lemma update_without_where_rejects:
  assumes "dwhere (dml (objs w r)) = []"
  shows "(\<exists>m. fst (update_m env dat r w) = Inl (Error m))
         \<and> trace (snd (update_m env dat r w)) = trace w
         \<and> (\<exists>m. fst (update_c env dat r w) = Inl (Error m))
         \<and> trace (snd (update_c env dat r w)) = trace w"
proof -
  obtain m where m: "update_body env dat r w = (Inl (Error m), w)"
    using update_body_without_where [OF assms] by blast
  obtain c w1 where cl: "clone r w = (c, w1)"
    by (cases "clone r w")
  then have same: "dwhere (dml (objs w1 c)) = []" "trace w1 = trace w"
    using assms by (auto simp add: clone_def alloc_def)
  obtain m' where m': "update_body env dat c w1 = (Inl (Error m'), w1)"
    using update_body_without_where [OF same(1)] by blast
  show ?thesis
    by (simp add: update_m_def update_c_def m m' cl same)
qed

lemma update_body_single_request:
  assumes "dwhere (dml (objs w r)) \<noteq> []"
    and "trigger_get (triggers (objs w r)) ''beforeUpdate'' = None"
    and "trigger_get (triggers (objs w r)) ''afterUpdate'' = None"
    and "engine (objs w r) = EngineHandle"
  shows "requests (trace (snd (update_body env (VObj rw) r w))) =
           requests (trace w)
             @ [rewritten env (objs w r) ((dml (objs w r))\<lparr>dtype := Update, data := VObj rw\<rparr>)]"
proof -
  define w1 where
    "w1 = modify r (\<lambda>t. t\<lparr>dml := (dml t)\<lparr>dtype := Update, data := VObj rw\<rparr>\<rparr>) w"
  have eqs: "triggers (objs w1 r) = triggers (objs w r)" "trace w1 = trace w"
    "engine (objs w1 r) = EngineHandle"
    "rewritten env (objs w1 r) (dml (objs w1 r)) =
       rewritten env (objs w r) ((dml (objs w r))\<lparr>dtype := Update, data := VObj rw\<rparr>)"
    using assms(4) by (simp_all add: w1_def modify_def rewritten_def)
  have d: "dispatch env eng (triggers (objs w r)) d (Some ''Update'') tr = dispatch_one env eng d tr"
    for d tr eng
    using assms(2,3) by (intro dispatch_no_trigger) simp_all
  show ?thesis
    using assms(1)
    by (simp add: update_body_def w1_def [symmetric] run_getResponse_eq eqs d
          requests_dispatch_one split: sum.splits)
qed

lemma update_without_trigger_single_request:
  assumes "dwhere (dml (objs w r)) \<noteq> []"
    and "trigger_get (triggers (objs w r)) ''beforeUpdate'' = None"
    and "trigger_get (triggers (objs w r)) ''afterUpdate'' = None"
    and "engine (objs w r) = EngineHandle"
  shows "requests (trace (snd (update_m env (VObj rw) r w))) =
           requests (trace w)
             @ [rewritten env (objs w r) ((dml (objs w r))\<lparr>dtype := Update, data := VObj rw\<rparr>)]
         \<and> requests (trace (snd (update_c env (VObj rw) r w))) =
           requests (trace w)
             @ [rewritten env (objs w r) ((dml (objs w r))\<lparr>dtype := Update, data := VObj rw\<rparr>)]"
proof -
  obtain c w1 where cl: "clone r w = (c, w1)"
    by (cases "clone r w")
  then have same: "objs w1 c = objs w r" "trace w1 = trace w"
    by (auto simp add: clone_def alloc_def)
  show ?thesis
    using update_body_single_request [OF assms, of env rw]
      update_body_single_request [of w1 c env rw] assms
    by (simp add: update_m_def update_c_def cl same)
qed

text \<open>
  C7 says that a terminal call with no event phase, and a mutation with no trigger of
  its phase, gives the engine exactly one request, with no preliminary request.
  \<^verbatim>\<open>delete\<close> of \<^verbatim>\<open>src/lib/Database.ts\<close> is built otherwise: with no trigger at all it
  first requests a select on the same conditions, then the delete.
\<close>

theorem delete_m_two_requests:
  "triggers (objs users_world_id 0) = []
   \<and> dwhere (dml (objs users_world_id 0)) = [Leaf ''id'' ''='' (VNum 1) AND]
   \<and> map dtype (requests (trace (snd (delete_m env_empty 0 users_world_id)))) = [Select, Delete]"
  by (simp add: alloc_def clone_def modify_def in_place_def on_clone_def new_Table_def
        table_of_def world0_def shop_def users_world_def engine_const_def env_empty_def
        users_world_id_def push_where_def where_body_def where_m_def where_c_def getResponse_def
        rewrite_columns_def dispatch_def phase_of_def dispatch_one_def run_getResponse_def
        returnFormattedError_def trigger_get_def found_def delete_m_def Let_def)

lemma fold_rewrite_step_none:
  "list_all (\<lambda>c. find (\<lambda>cf. ccolumn cf = c) cfs = None) xs \<Longrightarrow>
   fold (rewrite_step env cfs) xs acc = acc"
  by (induction xs arbitrary: acc) (auto split: prod.splits)

lemma rewrite_columns_no_computed:
  "list_all (\<lambda>c. find (\<lambda>cf. ccolumn cf = c) cfs = None) cols \<Longrightarrow>
   rewrite_columns env cfs cols = (cols, [], [])"
  by (simp add: rewrite_columns_def fold_rewrite_step_none)

lemma rewritten_no_computed:
  "list_all (\<lambda>c. find (\<lambda>cf. ccolumn cf = c) (computedFields this) = None) (columns d) \<Longrightarrow>
   rewritten env this d = d"
  by (simp add: rewritten_def rewrite_columns_no_computed)

lemma dispatch_without_trigger:
  assumes "ty = None \<or> (\<exists>t. ty = Some t \<and> trigger_get trs (''before'' @ t) = None
                              \<and> trigger_get trs (''after'' @ t) = None)"
  shows "dispatch env eng trs d ty tr = dispatch_one env eng d tr"
  using assms dispatch_no_phase dispatch_no_trigger by metis

lemma getResponse_single_request:
  assumes "ty = None \<or> (\<exists>t. ty = Some t \<and> trigger_get (triggers this) (''before'' @ t) = None
                              \<and> trigger_get (triggers this) (''after'' @ t) = None)"
    and "engine this = EngineHandle"
  shows "requests (snd (snd (getResponse env this d ty tr))) = requests tr @ [rewritten env this d]"
  by (simp add: getResponse_trace dispatch_without_trigger [OF assms(1)] assms(2)
        requests_dispatch_one)

lemma getResponse_verbatim:
  assumes "ty = None \<or> (\<exists>t. ty = Some t \<and> trigger_get (triggers this) (''before'' @ t) = None
                              \<and> trigger_get (triggers this) (''after'' @ t) = None)"
    and "engine this = EngineHandle"
    and "status (engine_run env tr d) = 200"
    and "list_all (\<lambda>c. find (\<lambda>cf. ccolumn cf = c) (computedFields this) = None) (columns d)"
  shows "getResponse env this d ty tr = (Inr (rdata (engine_run env tr d)), d, tr @ [EngineRun d])"
proof -
  have "dispatch env (engine this) (triggers this) d ty tr
          = (Inr (rdata (engine_run env tr d)), tr @ [EngineRun d])"
    using assms(2,3) by (simp add: dispatch_without_trigger [OF assms(1)] dispatch_one_def Let_def)
  then show ?thesis
    by (simp add: getResponse_def rewrite_columns_no_computed [OF assms(4)] Let_def)
qed

lemma delete_c_single_request:
  assumes "dwhere (dml (objs w r)) \<noteq> []"
    and "trigger_get (triggers (objs w r)) ''beforeDelete'' = None"
    and "trigger_get (triggers (objs w r)) ''afterDelete'' = None"
    and "engine (objs w r) = EngineHandle"
  shows "requests (trace (snd (delete_c env r w))) =
           requests (trace w) @ [rewritten env (objs w r) ((dml (objs w r))\<lparr>dtype := Delete\<rparr>)]"
proof -
  obtain c w1 where cl: "clone r w = (c, w1)"
    by (cases "clone r w")
  then have same: "objs w1 c = objs w r" "trace w1 = trace w"
    by (auto simp add: clone_def alloc_def)
  define w2 where "w2 = modify c (\<lambda>t. t\<lparr>dml := (dml t)\<lparr>dtype := Delete\<rparr>\<rparr>) w1"
  have eqs: "triggers (objs w2 c) = triggers (objs w r)" "trace w2 = trace w"
    "engine (objs w2 c) = EngineHandle"
    "rewritten env (objs w2 c) (dml (objs w2 c)) =
       rewritten env (objs w r) ((dml (objs w r))\<lparr>dtype := Delete\<rparr>)"
    using assms(4) by (simp_all add: w2_def modify_def rewritten_def same)
  have d: "dispatch env eng (triggers (objs w r)) d (Some ''Delete'') tr = dispatch_one env eng d tr"
    for d tr eng
    using assms(2,3) by (intro dispatch_no_trigger) simp_all
  show ?thesis
    using assms(1)
    by (simp add: delete_c_def cl same w2_def [symmetric] run_getResponse_eq eqs d
          requests_dispatch_one)
qed

lemma delete_m_select_then_delete:
  assumes "dwhere (dml (objs w r)) \<noteq> []"
    and "trigger_get (triggers (objs w r)) ''beforeDelete'' = None"
    and "trigger_get (triggers (objs w r)) ''afterDelete'' = None"
    and "computedFields (objs w r) = []"
    and "status (engine_run env (trace w) (select_of (dml (objs w r)))) = 200"
    and "engine (objs w r) = EngineHandle"
  shows "requests (trace (snd (delete_m env r w))) =
           requests (trace w)
             @ [select_of (dml (objs w r)), (dml (objs w r))\<lparr>dtype := Delete\<rparr>]"
proof -
  define w1 where "w1 = modify r (\<lambda>t. t\<lparr>dml := (dml t)\<lparr>dtype := Delete\<rparr>\<rparr>) w"
  define newDml where "newDml = select_of (dml (objs w r))"
  have nd: "(dml (objs w1 r))\<lparr>dtype := Select, columns := [''*''], distinct_flag := False,
               joins := [], orderBy := [], groupBy := [], limit := None, offset := None,
               data := VNull, aggregation := None\<rparr> = newDml"
    by (simp add: newDml_def select_of_def w1_def modify_def)
  have eqs: "triggers (objs w1 r) = triggers (objs w r)" "trace w1 = trace w"
    "computedFields (objs w1 r) = []" "dml (objs w1 r) = (dml (objs w r))\<lparr>dtype := Delete\<rparr>"
    "engine (objs w1 r) = EngineHandle"
    using assms(4,6) by (simp_all add: w1_def modify_def)
  have nt: "Some ''Delete'' = None \<or>
            (\<exists>t. Some ''Delete'' = Some t
                 \<and> trigger_get (triggers (objs w1 r)) (''before'' @ t) = None
                 \<and> trigger_get (triggers (objs w1 r)) (''after'' @ t) = None)"
    using assms(2,3) by (simp add: eqs)
  have g1: "getResponse env (objs w1 r) newDml (Some ''Delete'') (trace w) =
              (Inr (rdata (engine_run env (trace w) newDml)), newDml, trace w @ [EngineRun newDml])"
    using getResponse_verbatim [OF nt eqs(5), where env = env and d = newDml and tr = "trace w1"]
      assms(5)
    by (simp add: eqs newDml_def list_all_iff)
  have rw: "rewritten env (objs w1 r) d = d" for d
    by (simp add: rewritten_def rewrite_columns_def eqs)
  have dm: "delete_m env r w =
              (case getResponse env (objs w1 r) newDml (Some ''Delete'') (trace w1) of
                 (Inl e, _, tr1) \<Rightarrow> (Inl e, w1\<lparr>trace := tr1\<rparr>)
               | (Inr deleteData, _, tr1) \<Rightarrow>
                   (case run_getResponse env r None (w1\<lparr>trace := tr1\<rparr>) of
                      (Inl e, w2) \<Rightarrow> (Inl e, w2)
                    | (Inr _, w2) \<Rightarrow> (Inr deleteData, w2)))"
    using assms(1) by (simp add: delete_m_def Let_def w1_def [symmetric] nd)
  have "requests (trace (snd (delete_m env r w))) =
          requests (trace w) @ [newDml, (dml (objs w r))\<lparr>dtype := Delete\<rparr>]"
    by (simp add: dm g1 run_getResponse_eq eqs rw dispatch_no_phase requests_dispatch_one
          split: sum.splits)
  then show ?thesis
    by (simp add: newDml_def)
qed

lemma get_requests:
  assumes "engine (objs w r) = EngineHandle"
  shows "requests (trace (snd (get_m env r w))) =
           requests (trace w)
             @ [rewritten env (objs w r) ((dml (objs w r))\<lparr>dtype := Select, data := VNull\<rparr>)]"
    and "requests (trace (snd (get_c env r w))) =
           requests (trace w)
             @ [rewritten env (objs w r) ((dml (objs w r))\<lparr>dtype := Select, data := VNull\<rparr>)]"
proof -
  show "requests (trace (snd (get_m env r w))) =
           requests (trace w)
             @ [rewritten env (objs w r) ((dml (objs w r))\<lparr>dtype := Select, data := VNull\<rparr>)]"
    by (simp add: get_m_def get_body_requests [OF assms])
  obtain c w1 where cl: "clone r w = (c, w1)"
    by (cases "clone r w")
  then have same: "objs w1 c = objs w r" "trace w1 = trace w"
    by (auto simp add: clone_def alloc_def)
  show "requests (trace (snd (get_c env r w))) =
           requests (trace w)
             @ [rewritten env (objs w r) ((dml (objs w r))\<lparr>dtype := Select, data := VNull\<rparr>)]"
    using get_body_requests [of w1 c env] assms by (simp add: get_c_def cl same)
qed

lemma insert_body_single_request:
  assumes "list_all (\<lambda>item. typeof_object item \<and> item \<noteq> VNull) items"
    and "trigger_get (triggers (objs w r)) ''beforeAdd'' = None"
    and "trigger_get (triggers (objs w r)) ''afterAdd'' = None"
    and "engine (objs w r) = EngineHandle"
  shows "requests (trace (snd (insert_body env (VArr items) r w))) =
           requests (trace w)
             @ [rewritten env (objs w r) ((dml (objs w r))\<lparr>dtype := Insert, data := VArr items\<rparr>)]"
proof -
  define w1 where
    "w1 = modify r (\<lambda>t. t\<lparr>dml := (dml t)\<lparr>dtype := Insert, data := VArr items\<rparr>\<rparr>) w"
  have eqs: "triggers (objs w1 r) = triggers (objs w r)" "trace w1 = trace w"
    "engine (objs w1 r) = EngineHandle"
    "rewritten env (objs w1 r) (dml (objs w1 r)) =
       rewritten env (objs w r) ((dml (objs w r))\<lparr>dtype := Insert, data := VArr items\<rparr>)"
    using assms(4) by (simp_all add: w1_def modify_def rewritten_def)
  have d: "dispatch env eng (triggers (objs w r)) d (Some ''Add'') tr = dispatch_one env eng d tr"
    for d tr eng
    using assms(2,3) by (intro dispatch_no_trigger) simp_all
  show ?thesis
    using assms(1)
    by (simp add: insert_body_def w1_def [symmetric] run_getResponse_eq eqs d
          requests_dispatch_one split: sum.splits)
qed

lemma insert_without_trigger_single_request:
  assumes "list_all (\<lambda>item. typeof_object item \<and> item \<noteq> VNull) items"
    and "trigger_get (triggers (objs w r)) ''beforeAdd'' = None"
    and "trigger_get (triggers (objs w r)) ''afterAdd'' = None"
    and "engine (objs w r) = EngineHandle"
  shows "requests (trace (snd (insert_m env (VArr items) r w))) =
           requests (trace w)
             @ [rewritten env (objs w r) ((dml (objs w r))\<lparr>dtype := Insert, data := VArr items\<rparr>)]
         \<and> requests (trace (snd (insert_c env (VArr items) r w))) =
           requests (trace w)
             @ [rewritten env (objs w r) ((dml (objs w r))\<lparr>dtype := Insert, data := VArr items\<rparr>)]"
proof -
  obtain c w1 where cl: "clone r w = (c, w1)"
    by (cases "clone r w")
  then have same: "objs w1 c = objs w r" "trace w1 = trace w"
    by (auto simp add: clone_def alloc_def)
  show ?thesis
    using insert_body_single_request [OF assms, of env]
      insert_body_single_request [of items w1 c env] assms
    by (simp add: insert_m_def insert_c_def cl same)
qed

text \<open>
  C7, amended. For a builder that holds the engine: an invocation of the orchestrator
  with no event phase, or with a phase for which the builder's trigger list holds no
  trigger named \<^verbatim>\<open>before<Phase>\<close> or \<^verbatim>\<open>after<Phase>\<close>, hands the engine exactly one
  request, the descriptor after the computed-field rewrite; on status 200, when no
  requested column is a computed field, it returns the engine's rows verbatim. In both
  versions \<^verbatim>\<open>get()\<close>, \<^verbatim>\<open>insert\<close> of an array of objects with no Add trigger and
  \<^verbatim>\<open>update\<close> of an object with a WHERE node and no Update trigger invoke it once. So
  does \<^verbatim>\<open>delete()\<close> of \<^verbatim>\<open>part_002\<close> with a WHERE node and no Delete trigger, on the
  delete descriptor. \<^verbatim>\<open>delete()\<close> of \<^verbatim>\<open>src/lib/Database.ts\<close> (with a WHERE node, no
  Delete trigger, no computed field, and status 200 for the first answer) invokes it
  twice: first on a select descriptor with the same conditions, then on the delete
  descriptor.
\<close>

theorem single_request_without_trigger:
  "(engine this = EngineHandle
      \<and> (ty = None \<or> (\<exists>t. ty = Some t \<and> trigger_get (triggers this) (''before'' @ t) = None
                              \<and> trigger_get (triggers this) (''after'' @ t) = None))
    \<longrightarrow> requests (snd (snd (getResponse env this d ty tr))) = requests tr @ [rewritten env this d]
        \<and> (status (engine_run env tr d) = 200
             \<and> list_all (\<lambda>c. find (\<lambda>cf. ccolumn cf = c) (computedFields this) = None)
                  (columns d)
           \<longrightarrow> fst (getResponse env this d ty tr) = Inr (rdata (engine_run env tr d))))
   \<and> (engine (objs w r) = EngineHandle
      \<longrightarrow> requests (trace (snd (get_m env r w))) =
            requests (trace w)
              @ [rewritten env (objs w r) ((dml (objs w r))\<lparr>dtype := Select, data := VNull\<rparr>)]
        \<and> requests (trace (snd (get_c env r w))) =
            requests (trace w)
              @ [rewritten env (objs w r) ((dml (objs w r))\<lparr>dtype := Select, data := VNull\<rparr>)])
   \<and> (engine (objs w r) = EngineHandle
        \<and> list_all (\<lambda>item. typeof_object item \<and> item \<noteq> VNull) items
        \<and> trigger_get (triggers (objs w r)) ''beforeAdd'' = None
        \<and> trigger_get (triggers (objs w r)) ''afterAdd'' = None
      \<longrightarrow> requests (trace (snd (insert_m env (VArr items) r w))) =
            requests (trace w)
              @ [rewritten env (objs w r)
                   ((dml (objs w r))\<lparr>dtype := Insert, data := VArr items\<rparr>)]
        \<and> requests (trace (snd (insert_c env (VArr items) r w))) =
            requests (trace w)
              @ [rewritten env (objs w r)
                   ((dml (objs w r))\<lparr>dtype := Insert, data := VArr items\<rparr>)])
   \<and> (engine (objs w r) = EngineHandle
        \<and> dwhere (dml (objs w r)) \<noteq> []
        \<and> trigger_get (triggers (objs w r)) ''beforeUpdate'' = None
        \<and> trigger_get (triggers (objs w r)) ''afterUpdate'' = None
      \<longrightarrow> requests (trace (snd (update_m env (VObj rw) r w))) =
            requests (trace w)
              @ [rewritten env (objs w r) ((dml (objs w r))\<lparr>dtype := Update, data := VObj rw\<rparr>)]
        \<and> requests (trace (snd (update_c env (VObj rw) r w))) =
            requests (trace w)
              @ [rewritten env (objs w r) ((dml (objs w r))\<lparr>dtype := Update, data := VObj rw\<rparr>)])
   \<and> (engine (objs w r) = EngineHandle
        \<and> dwhere (dml (objs w r)) \<noteq> []
        \<and> trigger_get (triggers (objs w r)) ''beforeDelete'' = None
        \<and> trigger_get (triggers (objs w r)) ''afterDelete'' = None
      \<longrightarrow> requests (trace (snd (delete_c env r w))) =
            requests (trace w)
              @ [rewritten env (objs w r) ((dml (objs w r))\<lparr>dtype := Delete\<rparr>)])
   \<and> (engine (objs w r) = EngineHandle
        \<and> dwhere (dml (objs w r)) \<noteq> []
        \<and> trigger_get (triggers (objs w r)) ''beforeDelete'' = None
        \<and> trigger_get (triggers (objs w r)) ''afterDelete'' = None
        \<and> computedFields (objs w r) = []
        \<and> status (engine_run env (trace w) (select_of (dml (objs w r)))) = 200
      \<longrightarrow> requests (trace (snd (delete_m env r w))) =
            requests (trace w)
              @ [select_of (dml (objs w r)), (dml (objs w r))\<lparr>dtype := Delete\<rparr>])"
proof (intro conjI impI)
  assume a: "engine this = EngineHandle
      \<and> (ty = None \<or> (\<exists>t. ty = Some t \<and> trigger_get (triggers this) (''before'' @ t) = None
                              \<and> trigger_get (triggers this) (''after'' @ t) = None))"
  then show "requests (snd (snd (getResponse env this d ty tr))) = requests tr @ [rewritten env this d]"
    by (intro getResponse_single_request) simp_all
  assume "status (engine_run env tr d) = 200
             \<and> list_all (\<lambda>c. find (\<lambda>cf. ccolumn cf = c) (computedFields this) = None)
                  (columns d)"
  with a show "fst (getResponse env this d ty tr) = Inr (rdata (engine_run env tr d))"
    using getResponse_verbatim [of ty this env tr d] by simp
next
  assume "engine (objs w r) = EngineHandle"
  then show "requests (trace (snd (get_m env r w))) =
            requests (trace w)
              @ [rewritten env (objs w r) ((dml (objs w r))\<lparr>dtype := Select, data := VNull\<rparr>)]"
    and "requests (trace (snd (get_c env r w))) =
            requests (trace w)
              @ [rewritten env (objs w r) ((dml (objs w r))\<lparr>dtype := Select, data := VNull\<rparr>)]"
    by (rule get_requests)+
next
  assume a: "engine (objs w r) = EngineHandle
        \<and> list_all (\<lambda>item. typeof_object item \<and> item \<noteq> VNull) items
        \<and> trigger_get (triggers (objs w r)) ''beforeAdd'' = None
        \<and> trigger_get (triggers (objs w r)) ''afterAdd'' = None"
  then show "requests (trace (snd (insert_m env (VArr items) r w))) =
            requests (trace w)
              @ [rewritten env (objs w r)
                   ((dml (objs w r))\<lparr>dtype := Insert, data := VArr items\<rparr>)]"
    and "requests (trace (snd (insert_c env (VArr items) r w))) =
            requests (trace w)
              @ [rewritten env (objs w r)
                   ((dml (objs w r))\<lparr>dtype := Insert, data := VArr items\<rparr>)]"
    using insert_without_trigger_single_request [of items w r env] by simp_all
next
  assume a: "engine (objs w r) = EngineHandle
        \<and> dwhere (dml (objs w r)) \<noteq> []
        \<and> trigger_get (triggers (objs w r)) ''beforeUpdate'' = None
        \<and> trigger_get (triggers (objs w r)) ''afterUpdate'' = None"
  then show "requests (trace (snd (update_m env (VObj rw) r w))) =
            requests (trace w)
              @ [rewritten env (objs w r) ((dml (objs w r))\<lparr>dtype := Update, data := VObj rw\<rparr>)]"
    and "requests (trace (snd (update_c env (VObj rw) r w))) =
            requests (trace w)
              @ [rewritten env (objs w r) ((dml (objs w r))\<lparr>dtype := Update, data := VObj rw\<rparr>)]"
    using update_without_trigger_single_request [of w r env rw] by simp_all
next
  assume "engine (objs w r) = EngineHandle
        \<and> dwhere (dml (objs w r)) \<noteq> []
        \<and> trigger_get (triggers (objs w r)) ''beforeDelete'' = None
        \<and> trigger_get (triggers (objs w r)) ''afterDelete'' = None"
  then show "requests (trace (snd (delete_c env r w))) =
            requests (trace w)
              @ [rewritten env (objs w r) ((dml (objs w r))\<lparr>dtype := Delete\<rparr>)]"
    by (intro delete_c_single_request) simp_all
next
  assume "engine (objs w r) = EngineHandle
        \<and> dwhere (dml (objs w r)) \<noteq> []
        \<and> trigger_get (triggers (objs w r)) ''beforeDelete'' = None
        \<and> trigger_get (triggers (objs w r)) ''afterDelete'' = None
        \<and> computedFields (objs w r) = []
        \<and> status (engine_run env (trace w) (select_of (dml (objs w r)))) = 200"
  then show "requests (trace (snd (delete_m env r w))) =
            requests (trace w)
              @ [select_of (dml (objs w r)), (dml (objs w r))\<lparr>dtype := Delete\<rparr>]"
    by (intro delete_m_select_then_delete) simp_all
qed

theorem single_request_witness:
  "engine (objs users_world_id 0) = EngineHandle
   \<and> trigger_get (triggers (objs users_world_id 0)) (''before'' @ ''Add'') = None
   \<and> trigger_get (triggers (objs users_world_id 0)) (''after'' @ ''Add'') = None
   \<and> requests (snd (snd (getResponse env_empty (objs users_world_id 0)
                             ((dml (objs users_world_id 0))\<lparr>dtype := Insert, data := two_rows\<rparr>)
                             (Some ''Add'') [])))
       = [(dml (objs users_world_id 0))\<lparr>dtype := Insert, data := two_rows\<rparr>]
   \<and> fst (getResponse env_empty (objs users_world_id 0)
             ((dml (objs users_world_id 0))\<lparr>dtype := Insert, data := two_rows\<rparr>)
             (Some ''Add'') []) = Inr (Some [])
   \<and> map dtype (requests (trace (snd (get_c env_empty 0 users_world_id)))) = [Select]
   \<and> map data (requests (trace (snd (insert_m env_empty two_rows 0 users_world_id))))
       = [two_rows]
   \<and> map data (requests (trace (snd (update_c env_empty one_row 0 users_world_id))))
       = [one_row]
   \<and> map dtype (requests (trace (snd (delete_c env_empty 0 users_world_id)))) = [Delete]
   \<and> map dtype (requests (trace (snd (delete_m env_empty 0 users_world_id)))) = [Select, Delete]"
  using single_request_without_trigger
          [of "objs users_world_id 0" "Some ''Add''" env_empty
              "(dml (objs users_world_id 0))\<lparr>dtype := Insert, data := two_rows\<rparr>" "[]"
              users_world_id 0
              "[VObj [(''name'', VStr ''Ann'')], VObj [(''name'', VStr ''Bob'')]]"
              "[(''name'', VStr ''Bob'')]"]
  by (simp add: alloc_def clone_def modify_def in_place_def on_clone_def new_Table_def
        table_of_def world0_def shop_def users_world_def engine_const_def env_empty_def
        users_world_id_def two_rows_def one_row_def push_where_def where_body_def where_m_def
        where_c_def getResponse_def rewrite_columns_def dispatch_def phase_of_def
        dispatch_one_def run_getResponse_def returnFormattedError_def trigger_get_def found_def
        get_body_def get_m_def get_c_def insert_body_def insert_m_def update_body_def
        update_c_def delete_m_def delete_c_def select_of_def rewritten_def Let_def)

text \<open>
  C8 says that each aggregate shortcut forces \<^verbatim>\<open>limit = 1\<close> and that \<^verbatim>\<open>count()\<close> on an
  empty result set returns 0. \<^verbatim>\<open>count\<close> of \<^verbatim>\<open>src/lib/Database.ts\<close> is a chain step
  that leaves the limit alone; run as the README shows, \<^verbatim>\<open>count().first()\<close>, it returns
  \<^verbatim>\<open>null\<close> on an empty result set.
\<close>

theorem count_m_keeps_limit:
  "limit (dml (objs (snd (count_m ''*'' 0 users_world)) 0)) = None
   \<and> columns (dml (objs (snd (count_m ''*'' 0 users_world)) 0)) = [''COUNT(*) AS count'']
   \<and> fst (first_m env_empty 0 (snd (count_m ''*'' 0 users_world))) = Inr None"
  by (simp add: alloc_def clone_def modify_def in_place_def on_clone_def new_Table_def
        table_of_def world0_def shop_def users_world_def engine_const_def env_empty_def
        aggregate_body_def aggregate_m_def count_m_def getResponse_def rewrite_columns_def
        dispatch_def phase_of_def dispatch_one_def run_getResponse_def returnFormattedError_def
        trigger_get_def found_def first_body_def first_m_def first_c_def first_or_null_def
        Let_def)

lemma run_getResponse_requests:
  assumes "engine (objs w r) = EngineHandle"
  shows "requests (trace (snd (run_getResponse env r None w))) =
     requests (trace w) @ [rewritten env (objs w r) (dml (objs w r))]"
  by (simp add: run_getResponse_eq dispatch_no_phase requests_dispatch_one assms)

lemma run_getResponse_empty_rows:
  assumes "rdata (engine_run env (trace w) (rewritten env (objs w r) (dml (objs w r)))) = Some []"
    and "status (engine_run env (trace w) (rewritten env (objs w r) (dml (objs w r)))) = 200
         \<or> message (engine_run env (trace w) (rewritten env (objs w r) (dml (objs w r)))) \<noteq> None"
    and "engine (objs w r) = EngineHandle"
  shows "fst (run_getResponse env r None w) = Inr (Some [])"
proof -
  have "fst (dispatch_one env EngineHandle (rewritten env (objs w r) (dml (objs w r))) (trace w))
          = Inr (Some [])"
    using assms(1,2) dispatch_one_result by simp
  then have "fst (getResponse env (objs w r) (dml (objs w r)) None (trace w)) = Inr (Some [])"
    by (intro getResponse_empty_rows) (simp add: dispatch_no_phase assms(3))
  then show ?thesis
    by (simp add: run_getResponse_eq)
qed

lemma aggregate_c_spec:
  assumes "engine (objs w r) = EngineHandle"
  shows "\<exists>d. requests (trace (snd (aggregate_c ag env col r w))) = requests (trace w) @ [d]
      \<and> aggregation d = Some \<lparr>atype = ag, acolumn = col, aalias = agg_alias ag\<rparr>
      \<and> limit d = Some 1 \<and> data d = VNull
      \<and> (find (\<lambda>cf. ccolumn cf = agg_name ag @ ''('' @ col @ '') AS '' @ agg_alias ag)
             (computedFields (objs w r)) = None
         \<longrightarrow> columns d = [agg_name ag @ ''('' @ col @ '') AS '' @ agg_alias ag])
      \<and> (rdata (engine_run env (trace w) d) = Some []
           \<and> (status (engine_run env (trace w) d) = 200
                \<or> message (engine_run env (trace w) d) \<noteq> None)
         \<longrightarrow> fst (aggregate_c ag env col r w) = Inr (VNum 0))"
proof -
  obtain c w1 where cl: "clone r w = (c, w1)"
    by (cases "clone r w")
  then have same: "objs w1 c = objs w r" "trace w1 = trace w"
    by (auto simp add: clone_def alloc_def)
  define w2 where
    "w2 = modify c (\<lambda>t. (aggregate_body ag col t)
                          \<lparr>dml := (dml (aggregate_body ag col t))
                                     \<lparr>data := VNull, limit := Some 1\<rparr>\<rparr>) w1"
  define d where "d = rewritten env (objs w2 c) (dml (objs w2 c))"
  have tr: "trace w2 = trace w" and eng: "engine (objs w2 c) = EngineHandle"
    using assms by (simp_all add: w2_def modify_def same aggregate_body_def)
  have ag: "aggregate_c ag env col r w =
              (case run_getResponse env c None w2 of
                 (Inl e, w3) \<Rightarrow> (Inl e, w3)
               | (Inr result, w3) \<Rightarrow>
                   (case first_or_null result of
                      Inl e \<Rightarrow> (Inl e, w3)
                    | Inr None \<Rightarrow> (Inr (VNum 0), w3)
                    | Inr (Some res) \<Rightarrow> (Inr (get_prop res (agg_alias ag)), w3)))"
    by (simp add: aggregate_c_def cl w2_def)
  obtain res0 w3 where rg: "run_getResponse env c None w2 = (res0, w3)"
    by (cases "run_getResponse env c None w2")
  have "requests (trace w3) = requests (trace w) @ [d]"
    using run_getResponse_requests [OF eng, of env] by (simp add: rg d_def tr)
  then have req: "requests (trace (snd (aggregate_c ag env col r w))) = requests (trace w) @ [d]"
    by (simp add: ag rg split: sum.splits option.splits)
  have fields: "aggregation d = Some \<lparr>atype = ag, acolumn = col, aalias = agg_alias ag\<rparr>"
    "limit d = Some 1" "data d = VNull"
    by (simp_all add: d_def rewritten_def w2_def modify_def aggregate_body_def)
  have cols: "columns d = [agg_name ag @ ''('' @ col @ '') AS '' @ agg_alias ag]"
    if "find (\<lambda>cf. ccolumn cf = agg_name ag @ ''('' @ col @ '') AS '' @ agg_alias ag)
          (computedFields (objs w r)) = None"
    using that
    by (simp add: d_def rewritten_def w2_def modify_def aggregate_body_def same
          rewrite_columns_no_computed)
  have res: "fst (aggregate_c ag env col r w) = Inr (VNum 0)"
    if "rdata (engine_run env (trace w) d) = Some []"
       "status (engine_run env (trace w) d) = 200
          \<or> message (engine_run env (trace w) d) \<noteq> None"
  proof -
    have "fst (run_getResponse env c None w2) = Inr (Some [])"
      using that by (intro run_getResponse_empty_rows) (simp_all add: d_def tr eng)
    then show ?thesis
      by (simp add: ag rg first_or_null_def)
  qed
  show ?thesis
    by (intro exI [of _ d] conjI impI) (use req fields cols res in auto)
qed

lemma aggregate_m_spec:
  "fst (aggregate_m ag col r w) = r
   \<and> aggregation (dml (objs (snd (aggregate_m ag col r w)) r))
       = Some \<lparr>atype = ag, acolumn = col, aalias = agg_alias ag\<rparr>
   \<and> columns (dml (objs (snd (aggregate_m ag col r w)) r))
       = [agg_name ag @ ''('' @ col @ '') AS '' @ agg_alias ag]
   \<and> limit (dml (objs (snd (aggregate_m ag col r w)) r)) = limit (dml (objs w r))"
  by (simp add: aggregate_m_def in_place_def modify_def aggregate_body_def)

text \<open>
  C8, amended. In \<^verbatim>\<open>part_002\<close> each aggregate shortcut (\<^verbatim>\<open>count\<close>, \<^verbatim>\<open>sum\<close>, \<^verbatim>\<open>avg\<close>,
  \<^verbatim>\<open>max\<close>, \<^verbatim>\<open>min\<close>) is a terminal call that, on a builder that holds the engine,
  hands the engine one descriptor with the
  aggregation field set, \<^verbatim>\<open>limit = 1\<close>, \<^verbatim>\<open>data = null\<close> and (unless a computed field
  bears that very name) exactly one column, the aggregate expression aliased to the
  function name; on an empty row set it returns the number 0. In
  \<^verbatim>\<open>src/lib/Database.ts\<close> each aggregate shortcut is a chain step on the receiver that
  sets the aggregation field and the one column in the same way and leaves the limit as
  it was.
\<close>

theorem aggregate_shortcuts:
  assumes "engine (objs w r) = EngineHandle"
  shows
  "(\<exists>d. requests (trace (snd (aggregate_c ag env col r w))) = requests (trace w) @ [d]
      \<and> aggregation d = Some \<lparr>atype = ag, acolumn = col, aalias = agg_alias ag\<rparr>
      \<and> limit d = Some 1 \<and> data d = VNull
      \<and> (find (\<lambda>cf. ccolumn cf = agg_name ag @ ''('' @ col @ '') AS '' @ agg_alias ag)
             (computedFields (objs w r)) = None
         \<longrightarrow> columns d = [agg_name ag @ ''('' @ col @ '') AS '' @ agg_alias ag])
      \<and> (rdata (engine_run env (trace w) d) = Some []
           \<and> (status (engine_run env (trace w) d) = 200
                \<or> message (engine_run env (trace w) d) \<noteq> None)
         \<longrightarrow> fst (aggregate_c ag env col r w) = Inr (VNum 0)))
   \<and> fst (aggregate_m ag col r w) = r
   \<and> aggregation (dml (objs (snd (aggregate_m ag col r w)) r))
       = Some \<lparr>atype = ag, acolumn = col, aalias = agg_alias ag\<rparr>
   \<and> columns (dml (objs (snd (aggregate_m ag col r w)) r))
       = [agg_name ag @ ''('' @ col @ '') AS '' @ agg_alias ag]
   \<and> limit (dml (objs (snd (aggregate_m ag col r w)) r)) = limit (dml (objs w r))"
  using aggregate_c_spec [OF assms, of ag env col] aggregate_m_spec [of ag col r w] by simp

theorem aggregate_shortcuts_witness:
  "engine (objs users_world 0) = EngineHandle
   \<and> find (\<lambda>cf. ccolumn cf = ''COUNT(*) AS count'') (computedFields (objs users_world 0)) = None
   \<and> map columns (requests (trace (snd (count_c env_empty ''*'' 0 users_world))))
       = [[''COUNT(*) AS count'']]
   \<and> map limit (requests (trace (snd (count_c env_empty ''*'' 0 users_world)))) = [Some 1]
   \<and> rdata (engine_run env_empty []
               (hd (requests (trace (snd (count_c env_empty ''*'' 0 users_world)))))) = Some []
   \<and> fst (count_c env_empty ''*'' 0 users_world) = Inr (VNum 0)
   \<and> limit (dml (objs (snd (count_m ''*'' 0 users_world)) 0)) = None"
  using aggregate_shortcuts [of users_world 0 AggCount env_empty "''*''"]
  by (simp add: alloc_def clone_def modify_def in_place_def on_clone_def new_Table_def
        table_of_def world0_def shop_def users_world_def engine_const_def env_empty_def
        aggregate_body_def aggregate_m_def aggregate_c_def count_m_def count_c_def
        getResponse_def rewrite_columns_def dispatch_def phase_of_def dispatch_one_def
        run_getResponse_def returnFormattedError_def trigger_get_def found_def first_or_null_def
        Let_def)

text \<open>
  C4 says that for all column sequences \<open>C\<close>, \<^verbatim>\<open>select(C).get()\<close> requests exactly
  \<open>C\<close> unless \<open>C\<close> names a computed field, and that after execution the originally
  requested columns are intact. An empty \<open>C\<close> requests \<^verbatim>\<open>["*"]\<close>, by the guard of
  \<^verbatim>\<open>select\<close>. And with \<open>C = ["price", "total"]\<close>, where \<^verbatim>\<open>total\<close> is computed from
  \<^verbatim>\<open>price\<close> and \<^verbatim>\<open>qty\<close>, the request holds \<^verbatim>\<open>price\<close> and \<^verbatim>\<open>qty\<close> and the row
  returned holds \<^verbatim>\<open>total\<close> alone: \<^verbatim>\<open>price\<close>, which the caller requested, is deleted
  with the dependencies.
\<close>

theorem select_get_counterexample:
  "map columns (requests (trace (snd (get_m env_empty 0 (snd (select_m [] 0 users_world))))))
     = [[''*'']]
   \<and> map columns (requests (trace (snd (get_m env_totals 0
                                   (snd (select_m [''price'', ''total''] 0 items_world))))))
     = [[''price'', ''qty'']]
   \<and> fst (get_m env_totals 0 (snd (select_m [''price'', ''total''] 0 items_world)))
     = Inr (Some [[(''total'', VNum 6)]])
   \<and> fst (get_c env_totals (fst (select_c [''price'', ''total''] 0 items_world))
                            (snd (select_c [''price'', ''total''] 0 items_world)))
     = Inr (Some [[(''total'', VNum 6)]])"
  by (simp add: alloc_def clone_def modify_def in_place_def on_clone_def new_Table_def
        table_of_def world0_def shop_def users_world_def engine_const_def env_empty_def
        shop_computed_def stored_item_def env_totals_def items_world_def select_body_def
        select_m_def select_c_def getResponse_def rewrite_columns_def dispatch_def phase_of_def
        dispatch_one_def run_getResponse_def returnFormattedError_def trigger_get_def found_def
        get_body_def get_m_def get_c_def computedFields_collab_def strip_deps_def set_from_def
        get_prop_def Let_def)

lemma set_from_fold_set:
  "set (fold (\<lambda>x acc. if x \<in> set acc then acc else acc @ [x]) xs acc) = set xs \<union> set acc"
  by (induction xs arbitrary: acc) auto

lemma set_from_fold_distinct:
  "distinct acc \<Longrightarrow> distinct (fold (\<lambda>x acc. if x \<in> set acc then acc else acc @ [x]) xs acc)"
  by (induction xs arbitrary: acc) auto

lemma set_set_from [simp]: "set (set_from xs) = set xs"
  by (simp add: set_from_def set_from_fold_set)

lemma distinct_set_from [simp]: "distinct (set_from xs)"
  by (simp add: set_from_def set_from_fold_distinct)

lemma real_dependenciesD:
  assumes "real_dependencies env cfs" "find (\<lambda>cf. ccolumn cf = c) cfs = Some cf"
    "x \<in> set (extractDependencies env (instruction cf))"
  shows "find (\<lambda>cf'. ccolumn cf' = x) cfs = None"
proof -
  have "cf \<in> set cfs"
    using assms(2) by (auto simp add: find_Some_iff)
  then show ?thesis
    using assms(1,3) by (auto simp add: real_dependencies_def list_all_iff)
qed

lemma fold_rewrite_step_set:
  assumes "real_dependencies env cfs"
    and "fold (rewrite_step env cfs) xs (cols, needed, deps) = (cols', needed', deps')"
  shows "\<exists>nd. deps' = deps @ nd
           \<and> list_all (\<lambda>x. find (\<lambda>cf. ccolumn cf = x) cfs = None) nd
           \<and> set cols' = (set cols - {x \<in> set xs. find (\<lambda>cf. ccolumn cf = x) cfs \<noteq> None}) \<union> set nd"
  using assms(2)
proof (induction xs arbitrary: cols needed deps)
  case Nil
  then show ?case by simp
next
  case (Cons x xs)
  show ?case
  proof (cases "find (\<lambda>cf. ccolumn cf = x) cfs")
    case None
    with Cons.prems have "fold (rewrite_step env cfs) xs (cols, needed, deps) = (cols', needed', deps')"
      by simp
    from Cons.IH [OF this] None show ?thesis
      by auto
  next
    case (Some cf)
    define dx where "dx = extractDependencies env (instruction cf)"
    have real: "list_all (\<lambda>y. find (\<lambda>cf. ccolumn cf = y) cfs = None) dx"
      using real_dependenciesD [OF assms(1) Some] by (simp add: dx_def list_all_iff)
    have "fold (rewrite_step env cfs) xs
            (filter (\<lambda>col. col \<noteq> x) (set_from (cols @ dx)), needed @ [cf], deps @ dx)
          = (cols', needed', deps')"
      using Cons.prems Some by (simp add: dx_def Let_def)
    from Cons.IH [OF this] obtain nd where
      nd: "deps' = (deps @ dx) @ nd"
        "list_all (\<lambda>x. find (\<lambda>cf. ccolumn cf = x) cfs = None) nd"
        "set cols' = (set (filter (\<lambda>col. col \<noteq> x) (set_from (cols @ dx)))
                       - {x \<in> set xs. find (\<lambda>cf. ccolumn cf = x) cfs \<noteq> None}) \<union> set nd"
      by blast
    have "set cols' = (set cols - {y \<in> set (x # xs). find (\<lambda>cf. ccolumn cf = y) cfs \<noteq> None})
                        \<union> set (dx @ nd)"
      using nd(3) real Some by (auto simp add: list_all_iff)
    then show ?thesis
      using nd(1,2) real by (intro exI [of _ "dx @ nd"]) simp
  qed
qed

lemma fold_rewrite_step_distinct:
  assumes "fold (rewrite_step env cfs) xs (cols, needed, deps) = (cols', needed', deps')"
    and "distinct cols \<or> (\<exists>x \<in> set xs. find (\<lambda>cf. ccolumn cf = x) cfs \<noteq> None)"
  shows "distinct cols'"
  using assms
proof (induction xs arbitrary: cols needed deps)
  case Nil
  then show ?case by simp
next
  case (Cons x xs)
  show ?case
  proof (cases "find (\<lambda>cf. ccolumn cf = x) cfs")
    case None
    with Cons.prems show ?thesis
      by (intro Cons.IH [of cols needed deps]) auto
  next
    case (Some cf)
    with Cons.prems show ?thesis
      by (intro Cons.IH [of "filter (\<lambda>col. col \<noteq> x)
                (set_from (cols @ extractDependencies env (instruction cf)))"
              "needed @ [cf]" "deps @ extractDependencies env (instruction cf)"])
        (auto simp add: Let_def)
  qed
qed


lemma fold_rewrite_step_needed:
  assumes "fold (rewrite_step env cfs) xs (cols, needed, deps) = (cols', needed', deps')"
  shows "\<exists>nn. needed' = needed @ nn
           \<and> map ccolumn nn = filter (\<lambda>x. find (\<lambda>cf. ccolumn cf = x) cfs \<noteq> None) xs
           \<and> deps' = deps @ concat (map (\<lambda>cf. extractDependencies env (instruction cf)) nn)"
  using assms
proof (induction xs arbitrary: cols needed deps)
  case Nil
  then show ?case by simp
next
  case (Cons x xs)
  show ?case
  proof (cases "find (\<lambda>cf. ccolumn cf = x) cfs")
    case None
    with Cons.prems have "fold (rewrite_step env cfs) xs (cols, needed, deps) = (cols', needed', deps')"
      by simp
    from Cons.IH [OF this] None show ?thesis
      by auto
  next
    case (Some cf)
    have name: "ccolumn cf = x"
      using Some by (auto simp add: find_Some_iff)
    have "fold (rewrite_step env cfs) xs
            (filter (\<lambda>col. col \<noteq> x) (set_from (cols @ extractDependencies env (instruction cf))),
             needed @ [cf], deps @ extractDependencies env (instruction cf))
          = (cols', needed', deps')"
      using Cons.prems Some by (simp add: Let_def)
    from Cons.IH [OF this] obtain nn where
      "needed' = (needed @ [cf]) @ nn"
      "map ccolumn nn = filter (\<lambda>x. find (\<lambda>cf. ccolumn cf = x) cfs \<noteq> None) xs"
      "deps' = (deps @ extractDependencies env (instruction cf))
                 @ concat (map (\<lambda>cf. extractDependencies env (instruction cf)) nn)"
      by blast
    then show ?thesis
      using Some name by (intro exI [of _ "cf # nn"]) simp
  qed
qed

lemma map_of_strip_deps:
  "map_of (strip_deps deps r) k = (if k \<in> set deps then None else map_of r k)"
  by (induction r) (auto simp add: strip_deps_def)

lemma get_body_result:
  assumes "rewrite_columns env (computedFields (objs w r)) (columns (dml (objs w r)))
             = (cols, needed, deps)"
    and "status (engine_run env (trace w)
                   ((dml (objs w r))\<lparr>dtype := Select, data := VNull, columns := cols\<rparr>)) = 200"
    and "rdata (engine_run env (trace w)
                  ((dml (objs w r))\<lparr>dtype := Select, data := VNull, columns := cols\<rparr>)) = Some rows"
    and "engine (objs w r) = EngineHandle"
  shows "fst (get_body env r w) =
           Inr (Some (if needed = [] then rows
                      else map (strip_deps deps) (computedFields_collab env rows needed)))"
  using assms
  by (simp add: get_body_def run_getResponse_def getResponse_def modify_def dispatch_no_phase
        dispatch_one_def Let_def)

lemma get_body_request_columns:
  assumes "rewrite_columns env (computedFields (objs w r)) (columns (dml (objs w r)))
             = (cols, needed, deps)"
    and "engine (objs w r) = EngineHandle"
  shows "requests (trace (snd (get_body env r w))) =
           requests (trace w) @ [(dml (objs w r))\<lparr>dtype := Select, data := VNull, columns := cols\<rparr>]"
  using assms by (simp add: get_body_requests rewritten_def)


lemma select_then_get_m:
  "get_m env (fst (select_m C r w)) (snd (select_m C r w)) =
     get_body env r (modify r (select_body C) w)"
  by (simp add: select_m_def in_place_def get_m_def)

lemma select_then_get_c:
  "get_c env (fst (select_c C r w)) (snd (select_c C r w)) =
     get_body env (Suc (nextRef w)) (snd (clone (nextRef w) (snd (select_c C r w))))"
  "objs (snd (clone (nextRef w) (snd (select_c C r w)))) (Suc (nextRef w))
     = select_body C (objs w r)"
  "trace (snd (clone (nextRef w) (snd (select_c C r w)))) = trace w"
  by (simp_all add: select_c_def on_clone_def clone_def alloc_def get_c_def modify_def)

text \<open>
  C4, amended. For every non-empty column sequence \<open>C\<close>, \<^verbatim>\<open>select(C)\<close> followed by
  \<^verbatim>\<open>get()\<close>, on a builder that holds the engine, hands the engine one request. Its columns are exactly \<open>C\<close> when \<open>C\<close>
  names no computed field. Otherwise (the dependencies being real columns) they are the
  columns of \<open>C\<close> that are not computed fields together with the dependency columns of
  the computed fields named in \<open>C\<close>, without duplicates. After execution, on status 200,
  the rows are the engine's rows when no computed field was named; when one was, they are
  the rows the computed-field collaborator returned, where every dependency column that
  was not part of \<open>C\<close> has been removed and every column that is not a dependency is as
  the collaborator returned it. Both versions of the builder behave so.
\<close>

theorem select_get_columns:
  assumes "C \<noteq> []"
    and "rewrite_columns env (computedFields (objs w r)) C = (cols, needed, deps)"
    and "engine (objs w r) = EngineHandle"
  shows
    "(let d = (dml (objs w r))\<lparr>dtype := Select, data := VNull, columns := cols\<rparr>;
          m = get_m env (fst (select_m C r w)) (snd (select_m C r w));
          c = get_c env (fst (select_c C r w)) (snd (select_c C r w))
      in requests (trace (snd m)) = requests (trace w) @ [d]
       \<and> requests (trace (snd c)) = requests (trace w) @ [d]
       \<and> (list_all (\<lambda>x. find (\<lambda>cf. ccolumn cf = x) (computedFields (objs w r)) = None) C
            \<longrightarrow> cols = C)
       \<and> map ccolumn needed
           = filter (\<lambda>x. find (\<lambda>cf. ccolumn cf = x) (computedFields (objs w r)) \<noteq> None) C
       \<and> deps = concat (map (\<lambda>cf. extractDependencies env (instruction cf)) needed)
       \<and> (real_dependencies env (computedFields (objs w r))
            \<longrightarrow> set cols = {x \<in> set C. find (\<lambda>cf. ccolumn cf = x) (computedFields (objs w r)) = None}
                             \<union> set deps)
       \<and> (needed \<noteq> [] \<longrightarrow> distinct cols)
       \<and> (\<forall>rows. status (engine_run env (trace w) d) = 200
                  \<and> rdata (engine_run env (trace w) d) = Some rows \<and> needed = []
            \<longrightarrow> fst m = Inr (Some rows) \<and> fst c = Inr (Some rows))
       \<and> (\<forall>rows. status (engine_run env (trace w) d) = 200
                  \<and> rdata (engine_run env (trace w) d) = Some rows \<and> needed \<noteq> []
            \<longrightarrow> (\<exists>rows'. fst m = Inr (Some rows') \<and> fst c = Inr (Some rows')
                    \<and> length rows' = length rows
                    \<and> (\<forall>i < length rows. \<forall>k.
                          (k \<in> set deps \<and> k \<notin> set C \<longrightarrow> map_of (rows' ! i) k = None)
                        \<and> (k \<notin> set deps \<longrightarrow>
                             map_of (rows' ! i) k
                               = map_of (computedFields_collab env rows needed ! i) k)))))"
proof -
  define cfs where "cfs = computedFields (objs w r)"
  define d where "d = (dml (objs w r))\<lparr>dtype := Select, data := VNull, columns := cols\<rparr>"
  define m where "m = get_m env (fst (select_m C r w)) (snd (select_m C r w))"
  define c where "c = get_c env (fst (select_c C r w)) (snd (select_c C r w))"
  define wm where "wm = modify r (select_body C) w"
  have m: "m = get_body env r wm"
    by (simp add: m_def wm_def select_then_get_m)
  have om: "objs wm r = select_body C (objs w r)" "trace wm = trace w"
    by (simp_all add: wm_def modify_def)
  define wc where "wc = snd (clone (nextRef w) (snd (select_c C r w)))"
  have c: "c = get_body env (Suc (nextRef w)) wc"
    and oc: "objs wc (Suc (nextRef w)) = select_body C (objs w r)" "trace wc = trace w"
    by (simp_all add: c_def wc_def select_then_get_c)
  have sel: "computedFields (select_body C (objs w r)) = cfs"
    "engine (select_body C (objs w r)) = EngineHandle"
    "columns (dml (select_body C (objs w r))) = C"
    "(dml (select_body C (objs w r)))\<lparr>dtype := Select, data := VNull, columns := cols\<rparr> = d"
    using assms(1,3) by (simp_all add: select_body_def cfs_def d_def)
  have rc: "rewrite_columns env cfs C = (cols, needed, deps)"
    using assms(2) by (simp add: cfs_def)
  have fold: "fold (rewrite_step env cfs) C (C, [], []) = (cols, needed, deps)"
    using rc by (simp add: rewrite_columns_def split: if_splits)
      (simp add: fold_rewrite_step_none list_all_iff)
  have req: "requests (trace (snd m)) = requests (trace w) @ [d]"
    "requests (trace (snd c)) = requests (trace w) @ [d]"
    using get_body_request_columns [of env wm r cols needed deps]
      get_body_request_columns [of env wc "Suc (nextRef w)" cols needed deps]
    by (simp_all add: m c om oc sel rc)
  have plain: "cols = C"
    if "list_all (\<lambda>x. find (\<lambda>cf. ccolumn cf = x) cfs = None) C"
    using rc rewrite_columns_no_computed [OF that, of env] by simp
  have names: "map ccolumn needed = filter (\<lambda>x. find (\<lambda>cf. ccolumn cf = x) cfs \<noteq> None) C"
    "deps = concat (map (\<lambda>cf. extractDependencies env (instruction cf)) needed)"
    using fold_rewrite_step_needed [OF fold] by auto
  have sets: "set cols = {x \<in> set C. find (\<lambda>cf. ccolumn cf = x) cfs = None} \<union> set deps"
    if "real_dependencies env cfs"
    using fold_rewrite_step_set [OF that fold] by auto
  have dist: "distinct cols" if "needed \<noteq> []"
  proof -
    have "filter (\<lambda>x. find (\<lambda>cf. ccolumn cf = x) cfs \<noteq> None) C \<noteq> []"
      using that names(1) by (metis map_is_Nil_conv)
    then have "\<exists>x \<in> set C. find (\<lambda>cf. ccolumn cf = x) cfs \<noteq> None"
      by (simp add: filter_empty_conv)
    then show ?thesis
      using fold_rewrite_step_distinct [OF fold] by blast
  qed
  have res: "fst m = Inr (Some (if needed = [] then rows
                                else map (strip_deps deps) (computedFields_collab env rows needed)))"
            "fst c = Inr (Some (if needed = [] then rows
                                else map (strip_deps deps) (computedFields_collab env rows needed)))"
    if "status (engine_run env (trace w) d) = 200" "rdata (engine_run env (trace w) d) = Some rows"
    for rows
    using that get_body_result [of env wm r cols needed deps rows]
      get_body_result [of env wc "Suc (nextRef w)" cols needed deps rows]
    by (simp_all add: m c om oc sel rc)
  have len: "length (computedFields_collab env rows needed) = length rows" for rows
    by (simp add: computedFields_collab_def)
  have rows: "\<exists>rows'. fst m = Inr (Some rows') \<and> fst c = Inr (Some rows')
                \<and> length rows' = length rows
                \<and> (\<forall>i < length rows. \<forall>k.
                      (k \<in> set deps \<and> k \<notin> set C \<longrightarrow> map_of (rows' ! i) k = None)
                    \<and> (k \<notin> set deps \<longrightarrow>
                         map_of (rows' ! i) k
                           = map_of (computedFields_collab env rows needed ! i) k))"
    if "status (engine_run env (trace w) d) = 200" "rdata (engine_run env (trace w) d) = Some rows"
       "needed \<noteq> []"
    for rows
    using res [OF that(1,2)] that(3)
    by (intro exI [of _ "map (strip_deps deps) (computedFields_collab env rows needed)"])
      (simp add: len map_of_strip_deps)
  show ?thesis
    unfolding Let_def cfs_def [symmetric] d_def [symmetric] m_def [symmetric] c_def [symmetric]
  proof (intro conjI)
    show "requests (trace (snd m)) = requests (trace w) @ [d]"
      by (rule req(1))
    show "requests (trace (snd c)) = requests (trace w) @ [d]"
      by (rule req(2))
    show "list_all (\<lambda>x. find (\<lambda>cf. ccolumn cf = x) cfs = None) C \<longrightarrow> cols = C"
      using plain by blast
    show "map ccolumn needed = filter (\<lambda>x. find (\<lambda>cf. ccolumn cf = x) cfs \<noteq> None) C"
      by (rule names(1))
    show "deps = concat (map (\<lambda>cf. extractDependencies env (instruction cf)) needed)"
      by (rule names(2))
    show "real_dependencies env cfs \<longrightarrow>
          set cols = {x \<in> set C. find (\<lambda>cf. ccolumn cf = x) cfs = None} \<union> set deps"
      using sets by blast
    show "needed \<noteq> [] \<longrightarrow> distinct cols"
      using dist by blast
    show "\<forall>rows. status (engine_run env (trace w) d) = 200
                  \<and> rdata (engine_run env (trace w) d) = Some rows \<and> needed = []
            \<longrightarrow> fst m = Inr (Some rows) \<and> fst c = Inr (Some rows)"
      using res by simp
    show "\<forall>rows. status (engine_run env (trace w) d) = 200
                  \<and> rdata (engine_run env (trace w) d) = Some rows \<and> needed \<noteq> []
            \<longrightarrow> (\<exists>rows'. fst m = Inr (Some rows') \<and> fst c = Inr (Some rows')
                    \<and> length rows' = length rows
                    \<and> (\<forall>i < length rows. \<forall>k.
                          (k \<in> set deps \<and> k \<notin> set C \<longrightarrow> map_of (rows' ! i) k = None)
                        \<and> (k \<notin> set deps \<longrightarrow>
                             map_of (rows' ! i) k
                               = map_of (computedFields_collab env rows needed ! i) k)))"
      using rows by blast
  qed
qed


theorem select_get_columns_witness:
  "engine (objs items_world 0) = EngineHandle
   \<and> rewrite_columns env_totals (computedFields (objs items_world 0)) [''sku'', ''total'']
     = ([''sku'', ''price'', ''qty''],
        [\<lparr>ccolumn = ''total'', instruction = ''price * qty''\<rparr>], [''price'', ''qty''])
   \<and> real_dependencies env_totals (computedFields (objs items_world 0))
   \<and> map columns (requests (trace (snd (get_m env_totals 0
                                   (snd (select_m [''sku'', ''total''] 0 items_world))))))
     = [[''sku'', ''price'', ''qty'']]
   \<and> fst (get_m env_totals 0 (snd (select_m [''sku'', ''total''] 0 items_world)))
     = Inr (Some [[(''sku'', VStr ''A1''), (''total'', VNum 6)]])
   \<and> fst (get_c env_totals (fst (select_c [''sku'', ''total''] 0 items_world))
                            (snd (select_c [''sku'', ''total''] 0 items_world)))
     = Inr (Some [[(''sku'', VStr ''A1''), (''total'', VNum 6)]])
   \<and> rewrite_columns env_totals (computedFields (objs items_world 0)) [''sku'', ''qty'']
     = ([''sku'', ''qty''], [], [])
   \<and> map columns (requests (trace (snd (get_m env_totals 0
                                   (snd (select_m [''sku'', ''qty''] 0 items_world))))))
     = [[''sku'', ''qty'']]
   \<and> fst (get_c env_totals (fst (select_c [''sku'', ''qty''] 0 items_world))
                            (snd (select_c [''sku'', ''qty''] 0 items_world)))
     = Inr (Some [[(''sku'', VStr ''A1''), (''qty'', VNum 3)]])"
  using select_get_columns
          [of "[''sku'', ''total'']" env_totals items_world 0 "[''sku'', ''price'', ''qty'']"
              "[\<lparr>ccolumn = ''total'', instruction = ''price * qty''\<rparr>]" "[''price'', ''qty'']"]
        select_get_columns
          [of "[''sku'', ''qty'']" env_totals items_world 0 "[''sku'', ''qty'']" "[]" "[]"]
  by (simp add: alloc_def clone_def modify_def in_place_def on_clone_def new_Table_def
        table_of_def world0_def shop_computed_def stored_item_def env_totals_def items_world_def
        select_body_def select_m_def select_c_def getResponse_def rewrite_columns_def
        dispatch_def phase_of_def dispatch_one_def run_getResponse_def returnFormattedError_def
        trigger_get_def found_def get_body_def get_m_def get_c_def computedFields_collab_def
        strip_deps_def set_from_def get_prop_def real_dependencies_def Let_def)

end
